theory Spec2Isabelle
  imports Complex_Main
begin

section \<open>Table cells, series and boolean masks\<close>

text \<open>
  A cell of a price table is a double: a finite value, which is a real number, or the
  "not yet available" value \<open>NaN\<close>. Every comparison with \<open>NaN\<close> is false and
  arithmetic propagates it, as in IEEE 754. The infinities are not modelled.
\<close>

datatype cell = NaN | Num real

fun cell_gt :: "cell \<Rightarrow> cell \<Rightarrow> bool" where
  "cell_gt (Num x) (Num y) = (x > y)"
| "cell_gt _ _ = False"

fun cell_lt :: "cell \<Rightarrow> cell \<Rightarrow> bool" where
  "cell_lt (Num x) (Num y) = (x < y)"
| "cell_lt _ _ = False"

fun cell_ge :: "cell \<Rightarrow> cell \<Rightarrow> bool" where
  "cell_ge (Num x) (Num y) = (x \<ge> y)"
| "cell_ge _ _ = False"

fun cell_le :: "cell \<Rightarrow> cell \<Rightarrow> bool" where
  "cell_le (Num x) (Num y) = (x \<le> y)"
| "cell_le _ _ = False"

text \<open>
  The exact sum, difference and product, for the formulas that are modelled from the
  specification and for the example indicator library.
\<close>

fun cell_add :: "cell \<Rightarrow> cell \<Rightarrow> cell" where
  "cell_add (Num x) (Num y) = Num (x + y)"
| "cell_add _ _ = NaN"

fun cell_sub :: "cell \<Rightarrow> cell \<Rightarrow> cell" where
  "cell_sub (Num x) (Num y) = Num (x - y)"
| "cell_sub _ _ = NaN"

fun cell_mul :: "cell \<Rightarrow> cell \<Rightarrow> cell" where
  "cell_mul (Num x) (Num y) = Num (x * y)"
| "cell_mul _ _ = NaN"

text \<open>
  The arithmetic of the code is that of doubles: the exact result rounded to the nearest
  double, a tie going to the even significand. A double has a significand of 53 bits,
  and below \<open>2 ^ - 1022\<close> the spacing of doubles stays that of \<open>2 ^ - 1022\<close>. A result
  of magnitude \<open>2 ^ 1024\<close> or more, which in the code is an infinity, is not modelled.
\<close>

definition round_half_even :: "real \<Rightarrow> int" where
  "round_half_even x =
     (let f = \<lfloor>x\<rfloor>; d = x - of_int f
      in if d < 1 / 2 then f else if d > 1 / 2 then f + 1
         else if even f then f else f + 1)"

definition fl :: "real \<Rightarrow> real" where
  "fl x =
     (if x = 0 then 0
      else let e = max \<lfloor>log 2 \<bar>x\<bar>\<rfloor> (- 1022) - 52
           in of_int (round_half_even (x / 2 powr of_int e)) * 2 powr of_int e)"

fun cell_fadd :: "cell \<Rightarrow> cell \<Rightarrow> cell" where
  "cell_fadd (Num x) (Num y) = Num (fl (x + y))"
| "cell_fadd _ _ = NaN"

fun cell_fsub :: "cell \<Rightarrow> cell \<Rightarrow> cell" where
  "cell_fsub (Num x) (Num y) = Num (fl (x - y))"
| "cell_fsub _ _ = NaN"

fun cell_fmul :: "cell \<Rightarrow> cell \<Rightarrow> cell" where
  "cell_fmul (Num x) (Num y) = Num (fl (x * y))"
| "cell_fmul _ _ = NaN"

type_synonym series = "cell list"
type_synonym mask = "bool list"

text \<open>
  Element-wise operators of two series of one table, and of a series and a scalar. The
  sum, difference and product of the code are those of doubles; \<open>series_sub\<close> is the
  exact difference, which the formula of the MACD histogram uses below.
\<close>

definition series_gt :: "series \<Rightarrow> series \<Rightarrow> mask" where
  "series_gt a b = map2 cell_gt a b"

definition series_lt :: "series \<Rightarrow> series \<Rightarrow> mask" where
  "series_lt a b = map2 cell_lt a b"

definition series_ge :: "series \<Rightarrow> series \<Rightarrow> mask" where
  "series_ge a b = map2 cell_ge a b"

definition series_fadd :: "series \<Rightarrow> series \<Rightarrow> series" where
  "series_fadd a b = map2 cell_fadd a b"

definition series_fsub :: "series \<Rightarrow> series \<Rightarrow> series" where
  "series_fsub a b = map2 cell_fsub a b"

definition series_sub :: "series \<Rightarrow> series \<Rightarrow> series" where
  "series_sub a b = map2 cell_sub a b"

definition series_fmul_scalar :: "series \<Rightarrow> real \<Rightarrow> series" where
  "series_fmul_scalar a k = map (\<lambda>x. cell_fmul x (Num k)) a"

definition series_ge_scalar :: "series \<Rightarrow> real \<Rightarrow> mask" where
  "series_ge_scalar a k = map (\<lambda>x. cell_ge x (Num k)) a"

definition series_le_scalar :: "series \<Rightarrow> real \<Rightarrow> mask" where
  "series_le_scalar a k = map (\<lambda>x. cell_le x (Num k)) a"

definition series_lt_scalar :: "series \<Rightarrow> real \<Rightarrow> mask" where
  "series_lt_scalar a k = map (\<lambda>x. cell_lt x (Num k)) a"

definition mask_and :: "mask \<Rightarrow> mask \<Rightarrow> mask" where
  "mask_and a b = map2 (\<and>) a b"

definition mask_or :: "mask \<Rightarrow> mask \<Rightarrow> mask" where
  "mask_or a b = map2 (\<or>) a b"

section \<open>The table\<close>

text \<open>
  A DataFrame: the names of its columns and its rows, one per bar, in time order. A
  row gives the cell of every column; only the cells of the named columns are ever
  read, since reading a column that is absent raises \<open>KeyError\<close>.
\<close>

record dataframe =
  columns :: "string list"
  rows :: "(string \<Rightarrow> cell) list"

datatype error = KeyError string | IndexingError | ValueError

text \<open>Expressions are evaluated left to right and stop at the first error raised.\<close>

definition lift1 :: "('a \<Rightarrow> 'b) \<Rightarrow> error + 'a \<Rightarrow> error + 'b" where
  "lift1 f a = (case a of Inl e \<Rightarrow> Inl e | Inr x \<Rightarrow> Inr (f x))"

definition lift2 :: "('a \<Rightarrow> 'b \<Rightarrow> 'c) \<Rightarrow> error + 'a \<Rightarrow> error + 'b \<Rightarrow> error + 'c" where
  "lift2 f a b =
     (case a of Inl e \<Rightarrow> Inl e
      | Inr x \<Rightarrow> (case b of Inl e \<Rightarrow> Inl e | Inr y \<Rightarrow> Inr (f x y)))"

definition and_then :: "error + 'a \<Rightarrow> ('a \<Rightarrow> error + 'b) \<Rightarrow> error + 'b" where
  "and_then a f = (case a of Inl e \<Rightarrow> Inl e | Inr x \<Rightarrow> f x)"

definition shape0 :: "dataframe \<Rightarrow> nat" where
  \<comment> \<open>\<open>dataframe.shape[0]\<close>\<close>
  "shape0 df = length (rows df)"

definition getitem :: "dataframe \<Rightarrow> string \<Rightarrow> error + series" where
  \<comment> \<open>\<open>dataframe[name]\<close>\<close>
  "getitem df name =
     (if name \<in> set (columns df) then Inr (map (\<lambda>r. r name) (rows df))
      else Inl (KeyError name))"

definition with_column :: "string \<Rightarrow> string list \<Rightarrow> string list" where
  "with_column name cs = (if name \<in> set cs then cs else cs @ [name])"

definition loc_all_set :: "dataframe \<Rightarrow> string \<Rightarrow> cell \<Rightarrow> error + dataframe" where
  \<comment> \<open>\<open>dataframe.loc[:, name] = v\<close>; pandas refuses to make a new column from a scalar
      in a table that has no rows\<close>
  "loc_all_set df name v =
     (if rows df = [] \<and> name \<notin> set (columns df) then Inl ValueError
      else Inr (df\<lparr>columns := with_column name (columns df),
                   rows := map (\<lambda>r. r(name := v)) (rows df)\<rparr>))"

definition loc_mask_set :: "dataframe \<Rightarrow> mask \<Rightarrow> string \<Rightarrow> cell \<Rightarrow> error + dataframe" where
  \<comment> \<open>\<open>dataframe.loc[mask, name] = v\<close>; the rows outside the mask keep their cell, which
      is \<open>NaN\<close> in a column made by this assignment\<close>
  "loc_mask_set df m name v =
     (if length m \<noteq> length (rows df) then Inl IndexingError
      else Inr (df\<lparr>columns := with_column name (columns df),
                   rows := map2 (\<lambda>b r. if b then r(name := v)
                                        else if name \<in> set (columns df) then r
                                        else r(name := NaN))
                                m (rows df)\<rparr>))"

definition cell_at :: "dataframe \<Rightarrow> string \<Rightarrow> nat \<Rightarrow> cell" where
  "cell_at df name i = (rows df ! i) name"

section \<open>The strategy\<close>

text \<open>
  The tunable parameters of the class \<open>ImprovedBreakoutStrategy\<close> and the warm-up
  count; a hook reads them through \<open>self\<close>. The settings that only the host reads
  (timeframe, ROI table, stop-loss, trailing stop) and the \<open>metadata\<close> argument, which
  no hook reads, are left out. A literal such as \<open>0.8\<close> stands for the double nearest
  to it; the thresholds of the class are whole numbers.
\<close>

record strategy =
  ema_fast :: nat
  ema_slow :: nat
  rsi_period :: nat
  rsi_oversold :: real
  rsi_overbought :: real
  adx_period :: nat
  adx_threshold :: real
  macd_fast :: nat
  macd_slow :: nat
  macd_signal :: nat
  atr_period :: nat
  min_volume_multiplier :: real
  startup_candle_count :: nat

definition ImprovedBreakoutStrategy :: strategy where
  "ImprovedBreakoutStrategy =
     \<lparr>ema_fast = 20, ema_slow = 50, rsi_period = 14, rsi_oversold = 30,
      rsi_overbought = 70, adx_period = 14, adx_threshold = 25, macd_fast = 12,
      macd_slow = 26, macd_signal = 9, atr_period = 14, min_volume_multiplier = fl 0.8,
      startup_candle_count = 200\<rparr>"

text \<open>The decimal digits of a period, for the column names \<open>f'ema_{period}'\<close>.\<close>

fun str_nat :: "nat \<Rightarrow> string" where
  "str_nat n =
     (if n < 10 then [''0123456789'' ! n]
      else str_nat (n div 10) @ [''0123456789'' ! (n mod 10)])"

declare str_nat.simps [simp del]

definition ema_col :: "nat \<Rightarrow> string" where
  "ema_col p = ''ema_'' @ str_nat p"

section \<open>Indicators\<close>

definition put :: "dataframe \<Rightarrow> string \<Rightarrow> series \<Rightarrow> dataframe" where
  "put df name s =
     df\<lparr>columns := with_column name (columns df),
        rows := map2 (\<lambda>v r. r(name := v)) s (rows df)\<rparr>"

definition setitem :: "dataframe \<Rightarrow> string \<Rightarrow> series \<Rightarrow> error + dataframe" where
  \<comment> \<open>\<open>dataframe[name] = series\<close>; a series of another length than the table is refused\<close>
  "setitem df name s =
     (if length s \<noteq> length (rows df) then Inl ValueError else Inr (put df name s))"

text \<open>
  The numeric routines the indicator hook calls are those of TA-Lib and of pandas, which
  are not part of the sources. They are parameters of the model: the moving average, the
  two oscillators and the true range of TA-Lib, and the three rolling windows of pandas,
  each from its input series and a period to a series.
\<close>

record library =
  ema :: "series \<Rightarrow> nat \<Rightarrow> series"
  rsi :: "series \<Rightarrow> nat \<Rightarrow> series"
  adx :: "series \<Rightarrow> series \<Rightarrow> series \<Rightarrow> nat \<Rightarrow> series"
  atr :: "series \<Rightarrow> series \<Rightarrow> series \<Rightarrow> nat \<Rightarrow> series"
  rolling_mean :: "series \<Rightarrow> nat \<Rightarrow> series"
  rolling_max :: "series \<Rightarrow> nat \<Rightarrow> series"
  rolling_min :: "series \<Rightarrow> nat \<Rightarrow> series"

text \<open>Every routine returns a series aligned with its input, one cell per bar.\<close>

definition aligned :: "library \<Rightarrow> bool" where
  "aligned ta \<longleftrightarrow>
     (\<forall>s p. length (ema ta s p) = length s) \<and>
     (\<forall>s p. length (rsi ta s p) = length s) \<and>
     (\<forall>h l c p. length (adx ta h l c p) = length c) \<and>
     (\<forall>h l c p. length (atr ta h l c p) = length c) \<and>
     (\<forall>s p. length (rolling_mean ta s p) = length s) \<and>
     (\<forall>s p. length (rolling_max ta s p) = length s) \<and>
     (\<forall>s p. length (rolling_min ta s p) = length s)"

text \<open>The three series \<open>ta.MACD\<close> returns, under the keys of its result.\<close>

record macd_frame =
  macd :: series
  macdsignal :: series
  macdhist :: series

text \<open>
  Modelled from the spec: \<open>ta.EMA\<close>, \<open>ta.RSI\<close>, \<open>ta.ADX\<close> and \<open>ta.ATR\<close> of TA-Lib
  are missing from the sources. By the spec (4.1) the averages are exponential moving
  averages of close, RSI comes from the average gains and losses, ADX from the
  directional movement and ATR from the true range of the bars over the period. Each is
  called with the table and reads its price columns: close for the averages and RSI,
  high, low and close for ADX and ATR. The values are the library's.
\<close>

definition EMA :: "library \<Rightarrow> dataframe \<Rightarrow> nat \<Rightarrow> error + series" where
  "EMA ta df timeperiod = lift1 (\<lambda>c. ema ta c timeperiod) (getitem df ''close'')"

definition RSI :: "library \<Rightarrow> dataframe \<Rightarrow> nat \<Rightarrow> error + series" where
  "RSI ta df timeperiod = lift1 (\<lambda>c. rsi ta c timeperiod) (getitem df ''close'')"

definition ADX :: "library \<Rightarrow> dataframe \<Rightarrow> nat \<Rightarrow> error + series" where
  "ADX ta df timeperiod =
     lift2 (\<lambda>hl c. adx ta (fst hl) (snd hl) c timeperiod)
       (lift2 Pair (getitem df ''high'') (getitem df ''low'')) (getitem df ''close'')"

definition ATR :: "library \<Rightarrow> dataframe \<Rightarrow> nat \<Rightarrow> error + series" where
  "ATR ta df timeperiod =
     lift2 (\<lambda>hl c. atr ta (fst hl) (snd hl) c timeperiod)
       (lift2 Pair (getitem df ''high'') (getitem df ''low'')) (getitem df ''close'')"

text \<open>
  Modelled from the spec: \<open>ta.MACD\<close> of TA-Lib is missing from the sources. The spec
  (4.1) reads: "MACD(fast Mf, slow Ms, signal Msig): EMA(Mf) - EMA(Ms) as macd line;
  EMA(Msig) of macd line as signal line; histogram = macd - signal".
\<close>

definition MACD :: "library \<Rightarrow> dataframe \<Rightarrow> nat \<Rightarrow> nat \<Rightarrow> nat \<Rightarrow> error + macd_frame" where
  "MACD ta df fastperiod slowperiod signalperiod =
     lift1 (\<lambda>c. let line = series_sub (ema ta c fastperiod) (ema ta c slowperiod);
                    signal = ema ta line signalperiod
                in \<lparr>macd = line, macdsignal = signal, macdhist = series_sub line signal\<rparr>)
       (getitem df ''close'')"

definition lookback :: nat where
  "lookback = 20"

definition populate_indicators :: "library \<Rightarrow> strategy \<Rightarrow> dataframe \<Rightarrow> error + dataframe" where
  "populate_indicators ta self dataframe =
     and_then (and_then (EMA ta dataframe (ema_fast self))
                 (setitem dataframe (ema_col (ema_fast self)))) (\<lambda>df.
     and_then (and_then (EMA ta df (ema_slow self)) (setitem df (ema_col (ema_slow self)))) (\<lambda>df.
     and_then (and_then (RSI ta df (rsi_period self)) (setitem df ''rsi'')) (\<lambda>df.
     and_then (MACD ta df (macd_fast self) (macd_slow self) (macd_signal self)) (\<lambda>m.
     and_then (setitem df ''macd'' (macd m)) (\<lambda>df.
     and_then (setitem df ''macd_signal'' (macdsignal m)) (\<lambda>df.
     and_then (setitem df ''macd_hist'' (macdhist m)) (\<lambda>df.
     and_then (and_then (ADX ta df (adx_period self)) (setitem df ''adx'')) (\<lambda>df.
     and_then (and_then (ATR ta df (atr_period self)) (setitem df ''atr'')) (\<lambda>df.
     and_then (and_then (lift1 (\<lambda>v. rolling_mean ta v 20) (getitem df ''volume''))
                 (setitem df ''vol_ma20'')) (\<lambda>df.
     and_then (and_then (lift1 (\<lambda>v. rolling_max ta v lookback) (getitem df ''high''))
                 (setitem df ''high_recent'')) (\<lambda>df.
     and_then (and_then (lift1 (\<lambda>v. rolling_min ta v lookback) (getitem df ''low''))
                 (setitem df ''low_recent'')) (\<lambda>df.
     and_then (lift2 series_fsub (getitem df ''close'') (getitem df (ema_col (ema_slow self))))
       (setitem df ''price_above_ema_slow'')))))))))))))"

text \<open>
  The assignments of the indicator hook, in order, as they depend on the price columns
  (lemma \<open>populate_indicators_puts\<close>).
\<close>

fun puts :: "dataframe \<Rightarrow> (string \<times> series) list \<Rightarrow> dataframe" where
  "puts df [] = df"
| "puts df ((name, s) # ps) = puts (put df name s) ps"

definition indicator_series ::
  "library \<Rightarrow> strategy \<Rightarrow> series \<Rightarrow> series \<Rightarrow> series \<Rightarrow> series \<Rightarrow> (string \<times> series) list" where
  "indicator_series ta self c h l v =
     (let line = series_sub (ema ta c (macd_fast self)) (ema ta c (macd_slow self));
          signal = ema ta line (macd_signal self)
      in [(ema_col (ema_fast self), ema ta c (ema_fast self)),
          (ema_col (ema_slow self), ema ta c (ema_slow self)),
          (''rsi'', rsi ta c (rsi_period self)),
          (''macd'', line),
          (''macd_signal'', signal),
          (''macd_hist'', series_sub line signal),
          (''adx'', adx ta h l c (adx_period self)),
          (''atr'', atr ta h l c (atr_period self)),
          (''vol_ma20'', rolling_mean ta v 20),
          (''high_recent'', rolling_max ta h lookback),
          (''low_recent'', rolling_min ta l lookback),
          (''price_above_ema_slow'', series_fsub c (ema ta c (ema_slow self)))])"

section \<open>Entry signals\<close>

definition breakout_multiplier :: real where
  "breakout_multiplier = fl 0.7"

definition long_breakout :: "strategy \<Rightarrow> dataframe \<Rightarrow> error + mask" where
  "long_breakout self df =
     lift2 mask_and
      (lift2 mask_and
        (lift2 mask_and
          (lift2 mask_and
            (lift2 series_gt (getitem df ''close'')
               (lift2 series_fadd (getitem df ''high_recent'')
                  (lift1 (\<lambda>a. series_fmul_scalar a breakout_multiplier) (getitem df ''atr''))))
            (lift2 series_gt (getitem df ''macd'') (getitem df ''macd_signal'')))
          (lift2 series_gt (getitem df ''close'') (getitem df (ema_col (ema_slow self)))))
        (lift2 series_ge (getitem df ''volume'')
           (lift1 (\<lambda>a. series_fmul_scalar a (min_volume_multiplier self))
              (getitem df ''vol_ma20''))))
      (lift1 (\<lambda>a. series_ge_scalar a (adx_threshold self)) (getitem df ''adx''))"

definition short_breakout :: "strategy \<Rightarrow> dataframe \<Rightarrow> error + mask" where
  "short_breakout self df =
     lift2 mask_and
      (lift2 mask_and
        (lift2 mask_and
          (lift2 mask_and
            (lift2 series_lt (getitem df ''close'')
               (lift2 series_fsub (getitem df ''low_recent'')
                  (lift1 (\<lambda>a. series_fmul_scalar a breakout_multiplier) (getitem df ''atr''))))
            (lift2 series_lt (getitem df ''macd'') (getitem df ''macd_signal'')))
          (lift2 series_lt (getitem df ''close'') (getitem df (ema_col (ema_slow self)))))
        (lift2 series_ge (getitem df ''volume'')
           (lift1 (\<lambda>a. series_fmul_scalar a (min_volume_multiplier self))
              (getitem df ''vol_ma20''))))
      (lift1 (\<lambda>a. series_ge_scalar a (adx_threshold self)) (getitem df ''adx''))"

definition range_long :: "strategy \<Rightarrow> dataframe \<Rightarrow> error + mask" where
  "range_long self df =
     lift2 mask_and
      (lift2 mask_and
        (lift1 (\<lambda>a. series_lt_scalar a (adx_threshold self)) (getitem df ''adx''))
        (lift1 (\<lambda>a. series_le_scalar a (rsi_oversold self)) (getitem df ''rsi'')))
      (lift2 series_gt (getitem df ''close'') (getitem df (ema_col (ema_fast self))))"

definition range_short :: "strategy \<Rightarrow> dataframe \<Rightarrow> error + mask" where
  "range_short self df =
     lift2 mask_and
      (lift2 mask_and
        (lift1 (\<lambda>a. series_lt_scalar a (adx_threshold self)) (getitem df ''adx''))
        (lift1 (\<lambda>a. series_ge_scalar a (rsi_overbought self)) (getitem df ''rsi'')))
      (lift2 series_lt (getitem df ''close'') (getitem df (ema_col (ema_fast self))))"

definition consolidation_long :: "strategy \<Rightarrow> dataframe \<Rightarrow> error + mask" where
  "consolidation_long self df =
     lift2 mask_and
      (lift2 mask_and
        (lift1 (\<lambda>a. series_lt_scalar a (adx_threshold self)) (getitem df ''adx''))
        (lift1 (\<lambda>a. series_le_scalar a (rsi_oversold self + 5)) (getitem df ''rsi'')))
      (lift2 series_gt (getitem df ''macd'') (getitem df ''macd_signal''))"

definition consolidation_short :: "strategy \<Rightarrow> dataframe \<Rightarrow> error + mask" where
  "consolidation_short self df =
     lift2 mask_and
      (lift2 mask_and
        (lift1 (\<lambda>a. series_lt_scalar a (adx_threshold self)) (getitem df ''adx''))
        (lift1 (\<lambda>a. series_ge_scalar a (rsi_overbought self - 5)) (getitem df ''rsi'')))
      (lift2 series_lt (getitem df ''macd'') (getitem df ''macd_signal''))"

definition populate_entry_trend :: "strategy \<Rightarrow> dataframe \<Rightarrow> error + dataframe" where
  "populate_entry_trend self dataframe =
     and_then (loc_all_set dataframe ''enter'' (Num 0)) (\<lambda>df.
      if shape0 df < startup_candle_count self then Inr df
      else
        and_then (long_breakout self df) (\<lambda>lb.
        and_then (short_breakout self df) (\<lambda>sb.
        and_then (range_long self df) (\<lambda>rl.
        and_then (range_short self df) (\<lambda>rs.
        and_then (consolidation_long self df) (\<lambda>cl.
        and_then (consolidation_short self df) (\<lambda>cs.
        and_then (loc_mask_set df (mask_or (mask_or lb rl) cl) ''enter'' (Num 1)) (\<lambda>df1.
        loc_mask_set df1 (mask_or (mask_or sb rs) cs) ''enter'' (Num (- 1))))))))))"

section \<open>Exit signals\<close>

definition exit_long :: "strategy \<Rightarrow> dataframe \<Rightarrow> error + mask" where
  "exit_long self df =
     lift2 mask_or
      (lift2 series_lt (getitem df ''close'') (getitem df (ema_col (ema_slow self))))
      (lift1 (\<lambda>a. series_ge_scalar a (rsi_overbought self)) (getitem df ''rsi''))"

definition exit_short :: "strategy \<Rightarrow> dataframe \<Rightarrow> error + mask" where
  "exit_short self df =
     lift2 mask_or
      (lift2 series_gt (getitem df ''close'') (getitem df (ema_col (ema_slow self))))
      (lift1 (\<lambda>a. series_le_scalar a (rsi_oversold self)) (getitem df ''rsi''))"

definition populate_exit_trend :: "strategy \<Rightarrow> dataframe \<Rightarrow> error + dataframe" where
  "populate_exit_trend self dataframe =
     and_then (loc_all_set dataframe ''exit'' (Num 0)) (\<lambda>df.
        and_then (exit_long self df) (\<lambda>el.
        and_then (exit_short self df) (\<lambda>es.
        and_then (loc_mask_set df el ''exit'' (Num 1)) (\<lambda>df1.
        loc_mask_set df1 es ''exit'' (Num (- 1))))))"

section \<open>The three hooks in a row\<close>

text \<open>The host runs the indicator hook, then the entry hook, then the exit hook.\<close>

definition pipeline :: "library \<Rightarrow> strategy \<Rightarrow> dataframe \<Rightarrow> error + dataframe" where
  "pipeline ta self dataframe =
     and_then (populate_indicators ta self dataframe) (\<lambda>df.
     and_then (populate_entry_trend self df) (populate_exit_trend self))"

text \<open>The columns the three hooks write.\<close>

definition output_columns :: "strategy \<Rightarrow> string list" where
  "output_columns self =
     [ema_col (ema_fast self), ema_col (ema_slow self), ''rsi'', ''macd'', ''macd_signal'',
      ''macd_hist'', ''adx'', ''atr'', ''vol_ma20'', ''high_recent'', ''low_recent'',
      ''price_above_ema_slow'', ''enter'', ''exit'']"

text \<open>
  Two tables agree on a set of columns: they have as many bars, both have the columns,
  and the columns hold the same cells.
\<close>

definition agree :: "string set \<Rightarrow> dataframe \<Rightarrow> dataframe \<Rightarrow> bool" where
  "agree N a b \<longleftrightarrow>
     length (rows a) = length (rows b) \<and>
     (\<forall>n \<in> N. n \<in> set (columns a) \<and> n \<in> set (columns b) \<and>
        map (\<lambda>r. r n) (rows a) = map (\<lambda>r. r n) (rows b))"

section \<open>The conditions of one bar\<close>

text \<open>
  The condition groups read at a single row. The masks above are these predicates
  applied to every row of the table (lemmas \<open>long_breakout_rows\<close> and following).
\<close>

definition long_breakout_row :: "strategy \<Rightarrow> (string \<Rightarrow> cell) \<Rightarrow> bool" where
  "long_breakout_row self r \<longleftrightarrow>
     cell_gt (r ''close'')
       (cell_fadd (r ''high_recent'') (cell_fmul (r ''atr'') (Num breakout_multiplier))) \<and>
     cell_gt (r ''macd'') (r ''macd_signal'') \<and>
     cell_gt (r ''close'') (r (ema_col (ema_slow self))) \<and>
     cell_ge (r ''volume'') (cell_fmul (r ''vol_ma20'') (Num (min_volume_multiplier self))) \<and>
     cell_ge (r ''adx'') (Num (adx_threshold self))"

definition short_breakout_row :: "strategy \<Rightarrow> (string \<Rightarrow> cell) \<Rightarrow> bool" where
  "short_breakout_row self r \<longleftrightarrow>
     cell_lt (r ''close'')
       (cell_fsub (r ''low_recent'') (cell_fmul (r ''atr'') (Num breakout_multiplier))) \<and>
     cell_lt (r ''macd'') (r ''macd_signal'') \<and>
     cell_lt (r ''close'') (r (ema_col (ema_slow self))) \<and>
     cell_ge (r ''volume'') (cell_fmul (r ''vol_ma20'') (Num (min_volume_multiplier self))) \<and>
     cell_ge (r ''adx'') (Num (adx_threshold self))"

definition range_long_row :: "strategy \<Rightarrow> (string \<Rightarrow> cell) \<Rightarrow> bool" where
  "range_long_row self r \<longleftrightarrow>
     cell_lt (r ''adx'') (Num (adx_threshold self)) \<and>
     cell_le (r ''rsi'') (Num (rsi_oversold self)) \<and>
     cell_gt (r ''close'') (r (ema_col (ema_fast self)))"

definition range_short_row :: "strategy \<Rightarrow> (string \<Rightarrow> cell) \<Rightarrow> bool" where
  "range_short_row self r \<longleftrightarrow>
     cell_lt (r ''adx'') (Num (adx_threshold self)) \<and>
     cell_ge (r ''rsi'') (Num (rsi_overbought self)) \<and>
     cell_lt (r ''close'') (r (ema_col (ema_fast self)))"

definition consolidation_long_row :: "strategy \<Rightarrow> (string \<Rightarrow> cell) \<Rightarrow> bool" where
  "consolidation_long_row self r \<longleftrightarrow>
     cell_lt (r ''adx'') (Num (adx_threshold self)) \<and>
     cell_le (r ''rsi'') (Num (rsi_oversold self + 5)) \<and>
     cell_gt (r ''macd'') (r ''macd_signal'')"

definition consolidation_short_row :: "strategy \<Rightarrow> (string \<Rightarrow> cell) \<Rightarrow> bool" where
  "consolidation_short_row self r \<longleftrightarrow>
     cell_lt (r ''adx'') (Num (adx_threshold self)) \<and>
     cell_ge (r ''rsi'') (Num (rsi_overbought self - 5)) \<and>
     cell_lt (r ''macd'') (r ''macd_signal'')"

definition long_entry_row :: "strategy \<Rightarrow> (string \<Rightarrow> cell) \<Rightarrow> bool" where
  "long_entry_row self r \<longleftrightarrow>
     long_breakout_row self r \<or> range_long_row self r \<or> consolidation_long_row self r"

definition short_entry_row :: "strategy \<Rightarrow> (string \<Rightarrow> cell) \<Rightarrow> bool" where
  "short_entry_row self r \<longleftrightarrow>
     short_breakout_row self r \<or> range_short_row self r \<or> consolidation_short_row self r"

definition exit_long_row :: "strategy \<Rightarrow> (string \<Rightarrow> cell) \<Rightarrow> bool" where
  "exit_long_row self r \<longleftrightarrow>
     cell_lt (r ''close'') (r (ema_col (ema_slow self))) \<or>
     cell_ge (r ''rsi'') (Num (rsi_overbought self))"

definition exit_short_row :: "strategy \<Rightarrow> (string \<Rightarrow> cell) \<Rightarrow> bool" where
  "exit_short_row self r \<longleftrightarrow>
     cell_gt (r ''close'') (r (ema_col (ema_slow self))) \<or>
     cell_le (r ''rsi'') (Num (rsi_oversold self))"

text \<open>The columns the two hooks read.\<close>

definition entry_columns :: "strategy \<Rightarrow> string list" where
  "entry_columns self =
     [''close'', ''high_recent'', ''atr'', ''macd'', ''macd_signal'',
      ema_col (ema_slow self), ''volume'', ''vol_ma20'', ''adx'', ''low_recent'',
      ''rsi'', ema_col (ema_fast self)]"

definition exit_columns :: "strategy \<Rightarrow> string list" where
  "exit_columns self = [''close'', ema_col (ema_slow self), ''rsi'']"

section \<open>The signal left at one bar\<close>

text \<open>
  The value that the assignments of a hook leave in its signal column at a row: the
  column is first set to 0, then to 1 under the long mask, then to -1 under the short
  mask (lemmas \<open>populate_entry_trend_long\<close> and \<open>populate_exit_trend_rows\<close>).
\<close>

definition entry_value :: "strategy \<Rightarrow> (string \<Rightarrow> cell) \<Rightarrow> cell" where
  "entry_value self r =
     (if short_entry_row self r then Num (- 1)
      else if long_entry_row self r then Num 1 else Num 0)"

definition exit_value :: "strategy \<Rightarrow> (string \<Rightarrow> cell) \<Rightarrow> cell" where
  "exit_value self r =
     (if exit_short_row self r then Num (- 1)
      else if exit_long_row self r then Num 1 else Num 0)"

text \<open>
  Reading a signal of the table a hook returns: \<open>None\<close> when the hook raised, or when
  the table has no such column or no such bar.
\<close>

definition signal_at :: "error + dataframe \<Rightarrow> string \<Rightarrow> nat \<Rightarrow> cell option" where
  "signal_at res name i =
     (case res of
        Inl e \<Rightarrow> None
      | Inr df \<Rightarrow>
          if name \<in> set (columns df) \<and> i < length (rows df)
          then Some (cell_at df name i) else None)"

section \<open>Example tables\<close>

definition bar :: "(string \<times> real) list \<Rightarrow> (string \<Rightarrow> cell)" where
  "bar kvs = (\<lambda>name. case map_of kvs name of Some v \<Rightarrow> Num v | None \<Rightarrow> NaN)"

text \<open>The columns of a table after the indicator hook, with the class's periods.\<close>

definition table_columns :: "string list" where
  "table_columns =
     [''open'', ''high'', ''low'', ''close'', ''volume'', ''ema_20'', ''ema_50'', ''rsi'',
      ''macd'', ''macd_signal'', ''macd_hist'', ''adx'', ''atr'', ''vol_ma20'',
      ''high_recent'', ''low_recent'', ''price_above_ema_slow'']"

text \<open>A bar of the warm-up: prices only, every indicator still \<open>NaN\<close>.\<close>

definition warmup_bar :: "string \<Rightarrow> cell" where
  "warmup_bar =
     bar [(''open'', 100), (''high'', 101), (''low'', 99), (''close'', 100),
          (''volume'', 1000)]"

text \<open>A bar that meets every condition of the long breakout.\<close>

definition breakout_bar :: "string \<Rightarrow> cell" where
  "breakout_bar =
     bar [(''open'', 104), (''high'', 110), (''low'', 103), (''close'', 110),
          (''volume'', 1000), (''ema_20'', 105), (''ema_50'', 100), (''rsi'', 60),
          (''macd'', 2), (''macd_signal'', 1), (''macd_hist'', 1), (''adx'', 30),
          (''atr'', 10), (''vol_ma20'', 1000), (''high_recent'', 100),
          (''low_recent'', 90), (''price_above_ema_slow'', 10)]"

text \<open>A bar that meets every condition of the short breakout.\<close>

definition breakdown_bar :: "string \<Rightarrow> cell" where
  "breakdown_bar =
     bar [(''open'', 96), (''high'', 97), (''low'', 80), (''close'', 80),
          (''volume'', 1000), (''ema_20'', 95), (''ema_50'', 100), (''rsi'', 40),
          (''macd'', - 2), (''macd_signal'', - 1), (''macd_hist'', - 1), (''adx'', 30),
          (''atr'', 10), (''vol_ma20'', 1000), (''high_recent'', 110),
          (''low_recent'', 90), (''price_above_ema_slow'', - 20)]"

text \<open>A ranging bar: weak trend, oversold, close above the fast average and below the slow one.\<close>

definition oversold_bar :: "string \<Rightarrow> cell" where
  "oversold_bar =
     bar [(''open'', 96), (''high'', 98), (''low'', 95), (''close'', 97),
          (''volume'', 1000), (''ema_20'', 96), (''ema_50'', 100), (''rsi'', 25),
          (''macd'', - 2), (''macd_signal'', - 1), (''macd_hist'', - 1), (''adx'', 15),
          (''atr'', 3), (''vol_ma20'', 1000), (''high_recent'', 104),
          (''low_recent'', 94), (''price_above_ema_slow'', - 3)]"

text \<open>A ranging bar: weak trend, overbought, close below the fast average.\<close>

definition overbought_bar :: "string \<Rightarrow> cell" where
  "overbought_bar =
     bar [(''open'', 104), (''high'', 105), (''low'', 102), (''close'', 103),
          (''volume'', 1000), (''ema_20'', 104), (''ema_50'', 100), (''rsi'', 72),
          (''macd'', 1), (''macd_signal'', 2), (''macd_hist'', - 1), (''adx'', 15),
          (''atr'', 3), (''vol_ma20'', 1000), (''high_recent'', 106),
          (''low_recent'', 98), (''price_above_ema_slow'', 3)]"

text \<open>A quiet bar at which no condition of either hook holds.\<close>

definition quiet_bar :: "string \<Rightarrow> cell" where
  "quiet_bar =
     bar [(''open'', 100), (''high'', 101), (''low'', 99), (''close'', 100),
          (''volume'', 1000), (''ema_20'', 100), (''ema_50'', 100), (''rsi'', 50),
          (''macd'', 0), (''macd_signal'', 0), (''macd_hist'', 0), (''adx'', 15),
          (''atr'', 2), (''vol_ma20'', 1000), (''high_recent'', 104),
          (''low_recent'', 96), (''price_above_ema_slow'', 0)]"

text \<open>100 bars, fewer than the 200 of the warm-up count: 60 warm-up bars, then 40 ranging bars.\<close>

definition short_frame :: dataframe where
  "short_frame =
     \<lparr>columns = table_columns, rows = replicate 60 warmup_bar @ replicate 40 oversold_bar\<rparr>"

text \<open>Three bars only, each meeting the long breakout.\<close>

definition tiny_frame :: dataframe where
  "tiny_frame = \<lparr>columns = table_columns, rows = replicate 3 breakout_bar\<rparr>"

text \<open>
  200 bars: 60 warm-up bars, 40 quiet bars, 40 long breakouts, 40 short breakouts and 20
  ranging bars.
\<close>

definition long_frame :: dataframe where
  "long_frame =
     \<lparr>columns = table_columns,
      rows = replicate 60 warmup_bar @ replicate 40 quiet_bar @ replicate 40 breakout_bar @
             replicate 40 breakdown_bar @ replicate 20 oversold_bar\<rparr>"

text \<open>
  200 bars of a ranging market: 60 warm-up bars, 60 quiet bars, 40 oversold bars and 40
  overbought bars. In every bar the close lies between low and high, and the recent high
  and low enclose the bar.
\<close>

definition ranging_frame :: dataframe where
  "ranging_frame =
     \<lparr>columns = table_columns,
      rows = replicate 60 warmup_bar @ replicate 60 quiet_bar @ replicate 40 oversold_bar @
             replicate 40 overbought_bar\<rparr>"

text \<open>
  The class with its RSI thresholds tuned to 40 and 45, so that the range-long band
  (RSI at most 40) meets the consolidation-short band (RSI at least 45 - 5), and with a
  warm-up count of 1.
\<close>

definition tuned_strategy :: strategy where
  "tuned_strategy =
     ImprovedBreakoutStrategy\<lparr>rsi_oversold := 40, rsi_overbought := 45,
       startup_candle_count := 1\<rparr>"

text \<open>A bar at which, under the tuned thresholds, range long and consolidation short both hold.\<close>

definition conflict_bar :: "string \<Rightarrow> cell" where
  "conflict_bar =
     bar [(''open'', 100), (''high'', 102), (''low'', 99), (''close'', 101),
          (''volume'', 1000), (''ema_20'', 100), (''ema_50'', 100), (''rsi'', 40),
          (''macd'', 0), (''macd_signal'', 1), (''macd_hist'', - 1), (''adx'', 20),
          (''atr'', 2), (''vol_ma20'', 1000), (''high_recent'', 104),
          (''low_recent'', 96), (''price_above_ema_slow'', 1)]"

definition conflict_frame :: dataframe where
  "conflict_frame = \<lparr>columns = table_columns, rows = [conflict_bar]\<rparr>"

text \<open>
  A library for examples: exponential smoothing from the first value on, with factor
  2 / (period + 1); the other routines return a series that is not available yet.
\<close>

fun smooth :: "real \<Rightarrow> cell \<Rightarrow> series \<Rightarrow> series" where
  "smooth k prev [] = []"
| "smooth k prev (x # xs) =
     (let y = (case prev of NaN \<Rightarrow> x
               | Num p \<Rightarrow> cell_add (cell_mul x (Num k)) (Num ((1 - k) * p)))
      in y # smooth k y xs)"

definition unavailable :: "series \<Rightarrow> series" where
  "unavailable s = map (\<lambda>x. NaN) s"

definition example_library :: library where
  "example_library =
     \<lparr>ema = (\<lambda>s p. smooth (2 / (real p + 1)) NaN s),
      rsi = (\<lambda>s p. unavailable s),
      adx = (\<lambda>h l c p. unavailable c),
      atr = (\<lambda>h l c p. unavailable c),
      rolling_mean = (\<lambda>s p. unavailable s),
      rolling_max = (\<lambda>s p. unavailable s),
      rolling_min = (\<lambda>s p. unavailable s)\<rparr>"

text \<open>Three bars of prices, before any hook has run.\<close>

definition price_frame :: dataframe where
  "price_frame =
     \<lparr>columns = [''open'', ''high'', ''low'', ''close'', ''volume''],
      rows = [bar [(''open'', 100), (''high'', 101), (''low'', 99), (''close'', 100),
                   (''volume'', 1000)],
              bar [(''open'', 100), (''high'', 111), (''low'', 100), (''close'', 110),
                   (''volume'', 1200)],
              bar [(''open'', 110), (''high'', 121), (''low'', 109), (''close'', 120),
                   (''volume'', 900)]]\<rparr>"

text \<open>
  The same three bars in a table that still carries signal columns and an RSI column
  of an earlier run.
\<close>

definition stale_frame :: dataframe where
  "stale_frame =
     \<lparr>columns = [''open'', ''high'', ''low'', ''close'', ''volume'', ''rsi'', ''enter'',
                 ''exit''],
      rows = [bar [(''open'', 100), (''high'', 101), (''low'', 99), (''close'', 100),
                   (''volume'', 1000), (''rsi'', 20), (''enter'', 1), (''exit'', - 1)],
              bar [(''open'', 100), (''high'', 111), (''low'', 100), (''close'', 110),
                   (''volume'', 1200), (''rsi'', 20), (''enter'', 1), (''exit'', - 1)],
              bar [(''open'', 110), (''high'', 121), (''low'', 109), (''close'', 120),
                   (''volume'', 900), (''rsi'', 20), (''enter'', 1), (''exit'', - 1)]]\<rparr>"

section \<open>Doubles\<close>

text \<open>
  Rounding a number whose magnitude lies between two powers of two: the spacing of the
  doubles there is the lower power divided by \<open>2 ^ 52\<close>.
\<close>

lemma two_powr_neg: "2 powr (- real n) = 1 / (2::real) ^ n"
  by (simp add: powr_minus powr_realpow divide_inverse)

lemma fl_ge_one:
  assumes "2 ^ k \<le> \<bar>x\<bar>" and "\<bar>x\<bar> < 2 ^ Suc k" and "k \<le> 52"
  shows "fl x = of_int (round_half_even (x * 2 ^ (52 - k))) / 2 ^ (52 - k)"
proof -
  have pos: "0 < \<bar>x\<bar>" using assms(1) by (smt (verit) zero_less_power)
  have "2 powr (of_int (int k)) \<le> \<bar>x\<bar> \<and> \<bar>x\<bar> < 2 powr (of_int (int k + 1))"
    using assms(1,2) by (simp add: powr_realpow flip: of_nat_Suc add: add.commute)
  then have "\<lfloor>log 2 \<bar>x\<bar>\<rfloor> = int k"
    using floor_log_eq_powr_iff [of "\<bar>x\<bar>" 2 "int k"] pos by simp
  then have e: "max \<lfloor>log 2 \<bar>x\<bar>\<rfloor> (- 1022) - 52 = - int (52 - k)"
    using assms(3) by simp
  have "real_of_int (- int (52 - k)) = - real (52 - k)" by simp
  then have p: "2 powr of_int (- int (52 - k)) = 1 / (2::real) ^ (52 - k)"
    by (simp only: two_powr_neg)
  from pos have "x \<noteq> 0" by auto
  then show ?thesis
    unfolding fl_def Let_def e p by simp
qed

lemma fl_lt_one:
  assumes "1 \<le> \<bar>x\<bar> * 2 ^ k" and "\<bar>x\<bar> * 2 ^ k < 2" and "k \<le> 1022"
  shows "fl x = of_int (round_half_even (x * 2 ^ (52 + k))) / 2 ^ (52 + k)"
proof -
  have pos: "0 < \<bar>x\<bar>"
  proof (rule ccontr)
    assume "\<not> 0 < \<bar>x\<bar>"
    then have "\<bar>x\<bar> = 0" by simp
    with assms(1) show False by simp
  qed
  have "real_of_int (- int k) = - real k" by simp
  then have a: "2 powr (of_int (- int k)) = 1 / (2::real) ^ k"
    by (simp only: two_powr_neg)
  have "2 powr (of_int (- int k + 1)) = 2 powr 1 / 2 powr (real k)"
    by (simp add: powr_diff)
  then have b: "2 powr (of_int (- int k + 1)) = 2 / (2::real) ^ k"
    by (simp add: powr_realpow)
  have "2 powr (of_int (- int k)) \<le> \<bar>x\<bar> \<and> \<bar>x\<bar> < 2 powr (of_int (- int k + 1))"
    unfolding a b using assms(1,2) by (simp add: field_simps)
  then have "\<lfloor>log 2 \<bar>x\<bar>\<rfloor> = - int k"
    using floor_log_eq_powr_iff [of "\<bar>x\<bar>" 2 "- int k"] pos by simp
  then have e: "max \<lfloor>log 2 \<bar>x\<bar>\<rfloor> (- 1022) - 52 = - int (52 + k)"
    using assms(3) by simp
  have "real_of_int (- int (52 + k)) = - real (52 + k)" by simp
  then have p: "2 powr of_int (- int (52 + k)) = 1 / (2::real) ^ (52 + k)"
    by (simp only: two_powr_neg)
  from pos have "x \<noteq> 0" by auto
  then show ?thesis
    unfolding fl_def Let_def e p by simp
qed

lemma breakout_multiplier_value:
  "breakout_multiplier = 6305039478318694 / 9007199254740992"
  unfolding breakout_multiplier_def
  by (subst fl_lt_one [of _ 1]) (simp_all add: round_half_even_def Let_def)

lemma class_volume_multiplier:
  "min_volume_multiplier ImprovedBreakoutStrategy = 7205759403792794 / 9007199254740992"
  unfolding ImprovedBreakoutStrategy_def
  by (subst fl_lt_one [of _ 1]) (simp_all add: round_half_even_def Let_def)

text \<open>The doubles of the example bars: \<open>10 * 0.7\<close> is 7 and \<open>1000 * 0.8\<close> is 800.\<close>

lemma fl_examples:
  "fl (10 * breakout_multiplier) = 7" "fl 107 = 107" "fl 83 = 83"
  "fl (1000 * min_volume_multiplier ImprovedBreakoutStrategy) = 800"
proof -
  show "fl (10 * breakout_multiplier) = 7"
    unfolding breakout_multiplier_value
    by (subst fl_ge_one [of 2]) (simp_all add: round_half_even_def Let_def)
  show "fl 107 = 107"
    by (subst fl_ge_one [of 6]) (simp_all add: round_half_even_def Let_def)
  show "fl 83 = 83"
    by (subst fl_ge_one [of 6]) (simp_all add: round_half_even_def Let_def)
  show "fl (1000 * min_volume_multiplier ImprovedBreakoutStrategy) = 800"
    unfolding class_volume_multiplier
    by (subst fl_ge_one [of 9]) (simp_all add: round_half_even_def Let_def)
qed

text \<open>
  Rounding keeps the order of the positive numbers and the sign: within one power of two
  the spacing is the same, and a number of a higher power of two rounds to at least that
  power, which no number below it exceeds after rounding.
\<close>

lemma round_half_even_bounds:
  "\<lfloor>x\<rfloor> \<le> round_half_even x" "round_half_even x \<le> \<lfloor>x\<rfloor> + 1"
  by (simp_all add: round_half_even_def Let_def)

lemma round_half_even_of_int: "round_half_even (of_int n) = n"
  by (simp add: round_half_even_def Let_def)

lemma round_half_even_mono:
  assumes "x \<le> y"
  shows "round_half_even x \<le> round_half_even y"
proof (cases "\<lfloor>x\<rfloor> = \<lfloor>y\<rfloor>")
  case True
  with assms show ?thesis
    by (auto simp: round_half_even_def Let_def)
next
  case False
  with assms have "\<lfloor>x\<rfloor> < \<lfloor>y\<rfloor>"
    using floor_mono [of x y] by simp
  then show ?thesis
    using round_half_even_bounds(2) [of x] round_half_even_bounds(1) [of y] by simp
qed

lemma round_half_even_ge: "of_int n \<le> x \<Longrightarrow> n \<le> round_half_even x"
  using round_half_even_mono [of "of_int n" x] by (simp add: round_half_even_of_int)

lemma round_half_even_le: "x \<le> of_int n \<Longrightarrow> round_half_even x \<le> n"
  using round_half_even_mono [of x "of_int n"] by (simp add: round_half_even_of_int)

lemma fl_nonneg:
  assumes "0 \<le> x"
  shows "0 \<le> fl x"
proof (cases "x = 0")
  case True
  then show ?thesis by (simp add: fl_def)
next
  case False
  define u :: real where "u = 2 powr of_int (max \<lfloor>log 2 \<bar>x\<bar>\<rfloor> (- 1022) - 52)"
  have u: "0 < u" by (simp add: u_def)
  have "of_int 0 \<le> x / u" using assms u by simp
  then have "0 \<le> round_half_even (x / u)" by (rule round_half_even_ge)
  then have "0 \<le> of_int (round_half_even (x / u)) * u" using u by simp
  then show ?thesis using False by (simp add: fl_def Let_def u_def)
qed

lemma fl_nonpos:
  assumes "x \<le> 0"
  shows "fl x \<le> 0"
proof (cases "x = 0")
  case True
  then show ?thesis by (simp add: fl_def)
next
  case False
  define u :: real where "u = 2 powr of_int (max \<lfloor>log 2 \<bar>x\<bar>\<rfloor> (- 1022) - 52)"
  have u: "0 < u" by (simp add: u_def)
  have "x / u \<le> of_int 0" using assms u by (simp add: divide_le_0_iff)
  then have "round_half_even (x / u) \<le> 0" by (rule round_half_even_le)
  then have "of_int (round_half_even (x / u)) * u \<le> 0"
    using u by (simp add: mult_le_0_iff)
  then show ?thesis using False by (simp add: fl_def Let_def u_def)
qed

lemma fl_mono_pos:
  assumes "0 < x" and "x \<le> y"
  shows "fl x \<le> fl y"
proof -
  define ex where "ex = max \<lfloor>log 2 x\<rfloor> (- 1022)"
  define ey where "ey = max \<lfloor>log 2 y\<rfloor> (- 1022)"
  have y: "0 < y" using assms by simp
  have fx: "fl x = of_int (round_half_even (x / 2 powr of_int (ex - 52))) * 2 powr of_int (ex - 52)"
    using assms(1) by (simp add: fl_def Let_def ex_def)
  have fy: "fl y = of_int (round_half_even (y / 2 powr of_int (ey - 52))) * 2 powr of_int (ey - 52)"
    using y by (simp add: fl_def Let_def ey_def)
  have "log 2 x \<le> log 2 y" using assms by simp
  then have "\<lfloor>log 2 x\<rfloor> \<le> \<lfloor>log 2 y\<rfloor>" by (rule floor_mono)
  then have le: "ex \<le> ey" by (simp add: ex_def ey_def)
  show ?thesis
  proof (cases "ex = ey")
    case True
    have "x / 2 powr of_int (ey - 52) \<le> y / 2 powr of_int (ey - 52)"
      using assms(2) by (simp add: divide_right_mono)
    then have "round_half_even (x / 2 powr of_int (ey - 52))
               \<le> round_half_even (y / 2 powr of_int (ey - 52))"
      by (rule round_half_even_mono)
    then show ?thesis unfolding fx fy True
      by (simp add: mult_right_mono)
  next
    case False
    with le have lt: "ex < ey" by simp
    have "- 1022 \<le> ex" by (simp add: ex_def)
    with lt have eyf: "ey = \<lfloor>log 2 y\<rfloor>" by (simp add: ey_def)
    have "2 powr of_int ey \<le> y"
      using floor_log_eq_powr_iff [of y 2 ey] y eyf by simp
    then have "2 powr of_int ey / 2 powr of_int (ey - 52) \<le> y / 2 powr of_int (ey - 52)"
      by (simp add: divide_right_mono)
    moreover have "2 powr of_int ey / 2 powr of_int (ey - 52) = (2::real) powr 52"
      by (simp flip: powr_diff)
    moreover have "(2::real) powr 52 = of_int (2 ^ 52)"
      using powr_realpow [of "2::real" 52] by simp
    ultimately have "of_int (2 ^ 52) \<le> y / 2 powr of_int (ey - 52)" by simp
    then have "2 ^ 52 \<le> round_half_even (y / 2 powr of_int (ey - 52))"
      by (rule round_half_even_ge)
    then have "of_int (2 ^ 52) \<le> (of_int (round_half_even (y / 2 powr of_int (ey - 52))) :: real)"
      by (simp only: of_int_le_iff)
    then have "of_int (2 ^ 52) * 2 powr of_int (ey - 52) \<le> fl y"
      unfolding fy by (simp add: mult_right_mono)
    moreover have "of_int (2 ^ 52) * 2 powr of_int (ey - 52) = (2::real) powr of_int ey"
      using powr_add [of "2::real" 52 "of_int (ey - 52)"] powr_realpow [of "2::real" 52]
      by simp
    ultimately have lower: "2 powr of_int ey \<le> fl y" by simp
    have "\<lfloor>log 2 x\<rfloor> \<le> ex" by (simp add: ex_def)
    then have "log 2 x < of_int (ex + 1)" by linarith
    then have "x < 2 powr of_int (ex + 1)"
      using assms(1) by (simp add: log_less_iff)
    then have "x / 2 powr of_int (ex - 52) \<le> 2 powr of_int (ex + 1) / 2 powr of_int (ex - 52)"
      by (simp add: divide_right_mono)
    moreover have "2 powr of_int (ex + 1) / 2 powr of_int (ex - 52) = (2::real) powr 53"
      by (simp flip: powr_diff)
    moreover have "(2::real) powr 53 = of_int (2 ^ 53)"
      using powr_realpow [of "2::real" 53] by simp
    ultimately have "x / 2 powr of_int (ex - 52) \<le> of_int (2 ^ 53)" by simp
    then have "round_half_even (x / 2 powr of_int (ex - 52)) \<le> 2 ^ 53"
      by (rule round_half_even_le)
    then have "(of_int (round_half_even (x / 2 powr of_int (ex - 52))) :: real) \<le> of_int (2 ^ 53)"
      by (simp only: of_int_le_iff)
    then have a: "fl x \<le> of_int (2 ^ 53) * 2 powr of_int (ex - 52)"
      unfolding fx by (simp add: mult_right_mono)
    have b: "of_int (2 ^ 53) * 2 powr of_int (ex - 52) = (2::real) powr of_int (ex + 1)"
      using powr_add [of "2::real" 53 "of_int (ex - 52)"] powr_realpow [of "2::real" 53]
      by (simp add: add.commute)
    have "of_int (ex + 1) \<le> (of_int ey :: real)"
      using lt by simp
    then have c: "(2::real) powr of_int (ex + 1) \<le> 2 powr of_int ey"
      by (simp only: powr_le_cancel_iff)
    from a b c lower show ?thesis by linarith
  qed
qed

section \<open>Masks are row predicates\<close>

lemma map2_same:
  "map2 f (map g xs) (map h xs) = map (\<lambda>x. f (g x) (h x)) xs"
  by (induction xs) simp_all

lemma getitem_present:
  "name \<in> set (columns df) \<Longrightarrow> getitem df name = Inr (map (\<lambda>r. r name) (rows df))"
  by (simp add: getitem_def)

lemma lift1_Inr: "lift1 f (Inr x) = Inr (f x)"
  by (simp add: lift1_def)

lemma lift2_Inr: "lift2 f (Inr x) (Inr y) = Inr (f x y)"
  by (simp add: lift2_def)

lemma and_then_Inr: "and_then (Inr x) f = f x"
  by (simp add: and_then_def)

lemmas series_defs =
  series_gt_def series_lt_def series_ge_def series_fadd_def series_fsub_def series_sub_def
  series_fmul_scalar_def series_ge_scalar_def series_le_scalar_def series_lt_scalar_def
  mask_and_def mask_or_def

lemmas lift_Inr = lift1_Inr lift2_Inr and_then_Inr

lemma long_breakout_rows:
  assumes "set (entry_columns self) \<subseteq> set (columns df)"
  shows "long_breakout self df = Inr (map (long_breakout_row self) (rows df))"
  using assms
  by (simp add: long_breakout_def entry_columns_def getitem_present lift_Inr series_defs
      map2_same long_breakout_row_def conj_assoc cong: map_cong)

lemma short_breakout_rows:
  assumes "set (entry_columns self) \<subseteq> set (columns df)"
  shows "short_breakout self df = Inr (map (short_breakout_row self) (rows df))"
  using assms
  by (simp add: short_breakout_def entry_columns_def getitem_present lift_Inr series_defs
      map2_same short_breakout_row_def)

lemma range_long_rows:
  assumes "set (entry_columns self) \<subseteq> set (columns df)"
  shows "range_long self df = Inr (map (range_long_row self) (rows df))"
  using assms
  by (simp add: range_long_def entry_columns_def getitem_present lift_Inr series_defs
      map2_same range_long_row_def)

lemma range_short_rows:
  assumes "set (entry_columns self) \<subseteq> set (columns df)"
  shows "range_short self df = Inr (map (range_short_row self) (rows df))"
  using assms
  by (simp add: range_short_def entry_columns_def getitem_present lift_Inr series_defs
      map2_same range_short_row_def)

lemma consolidation_long_rows:
  assumes "set (entry_columns self) \<subseteq> set (columns df)"
  shows "consolidation_long self df = Inr (map (consolidation_long_row self) (rows df))"
  using assms
  by (simp add: consolidation_long_def entry_columns_def getitem_present lift_Inr series_defs
      map2_same consolidation_long_row_def)

lemma consolidation_short_rows:
  assumes "set (entry_columns self) \<subseteq> set (columns df)"
  shows "consolidation_short self df = Inr (map (consolidation_short_row self) (rows df))"
  using assms
  by (simp add: consolidation_short_def entry_columns_def getitem_present lift_Inr series_defs
      map2_same consolidation_short_row_def)

lemma exit_long_rows:
  assumes "set (exit_columns self) \<subseteq> set (columns df)"
  shows "exit_long self df = Inr (map (exit_long_row self) (rows df))"
  using assms
  by (simp add: exit_long_def exit_columns_def getitem_present lift_Inr series_defs
      map2_same exit_long_row_def)

lemma exit_short_rows:
  assumes "set (exit_columns self) \<subseteq> set (columns df)"
  shows "exit_short self df = Inr (map (exit_short_row self) (rows df))"
  using assms
  by (simp add: exit_short_def exit_columns_def getitem_present lift_Inr series_defs
      map2_same exit_short_row_def)

lemma ema_col_not_enter [simp]: "ema_col p \<noteq> ''enter''" "ema_col p \<noteq> ''exit''"
  by (simp_all add: ema_col_def)


lemma loc_all_set_rows:
  assumes "rows df \<noteq> []"
  shows "loc_all_set df name v =
         Inr (df\<lparr>columns := with_column name (columns df),
                 rows := map (\<lambda>r. r(name := v)) (rows df)\<rparr>)"
  using assms by (simp add: loc_all_set_def)

lemma set_with_column [simp]: "set (with_column name cs) = insert name (set cs)"
  by (auto simp: with_column_def)

lemma with_column_idem [simp]: "with_column name (with_column name cs) = with_column name cs"
  by (simp add: with_column_def)



lemma loc_mask_set_map:
  assumes "name \<in> set (columns df)" and "rows df = map g xs"
  shows "loc_mask_set df (map P xs) name v =
         Inr (df\<lparr>rows := map (\<lambda>x. if P x then (g x)(name := v) else g x) xs\<rparr>)"
  using assms by (simp add: loc_mask_set_def with_column_def map2_same)

lemma entry_rows_enter [simp]:
  "long_entry_row self (r(''enter'' := v)) = long_entry_row self r"
  "short_entry_row self (r(''enter'' := v)) = short_entry_row self r"
  by (simp_all add: long_entry_row_def short_entry_row_def long_breakout_row_def
      short_breakout_row_def range_long_row_def range_short_row_def
      consolidation_long_row_def consolidation_short_row_def)

lemma exit_rows_exit [simp]:
  "exit_long_row self (r(''exit'' := v)) = exit_long_row self r"
  "exit_short_row self (r(''exit'' := v)) = exit_short_row self r"
  by (simp_all add: exit_long_row_def exit_short_row_def)

lemma populate_entry_trend_short:
  assumes "length (rows df) < startup_candle_count self" and "rows df \<noteq> []"
  shows "populate_entry_trend self df =
         Inr (df\<lparr>columns := with_column ''enter'' (columns df),
                 rows := map (\<lambda>r. r(''enter'' := Num 0)) (rows df)\<rparr>)"
  using assms
  by (simp add: populate_entry_trend_def loc_all_set_rows and_then_Inr shape0_def)

lemma populate_entry_trend_long:
  assumes cols: "set (entry_columns self) \<subseteq> set (columns df)"
    and len: "startup_candle_count self \<le> length (rows df)"
    and ne: "rows df \<noteq> []"
  shows "populate_entry_trend self df =
         Inr (df\<lparr>columns := with_column ''enter'' (columns df),
                 rows := map (\<lambda>r. r(''enter'' := entry_value self r)) (rows df)\<rparr>)"
proof -
  define df0 where "df0 = df\<lparr>columns := with_column ''enter'' (columns df),
                             rows := map (\<lambda>r. r(''enter'' := Num 0)) (rows df)\<rparr>"
  have z: "loc_all_set df ''enter'' (Num 0) = Inr df0"
    using ne by (simp add: loc_all_set_rows df0_def)
  have cols0: "set (entry_columns self) \<subseteq> set (columns df0)"
    using cols by (auto simp: df0_def)
  have enter0: "''enter'' \<in> set (columns df0)"
    by (simp add: df0_def)
  have len0: "\<not> shape0 df0 < startup_candle_count self"
    using len by (simp add: shape0_def df0_def)
  let ?L = "\<lambda>r. (long_breakout_row self r \<or> range_long_row self r) \<or> consolidation_long_row self r"
  let ?S = "\<lambda>r. (short_breakout_row self r \<or> range_short_row self r) \<or> consolidation_short_row self r"
  let ?f = "\<lambda>r. if ?L r then r(''enter'' := Num 1) else r"
  have m1: "mask_or (mask_or (map (long_breakout_row self) (rows df0))
                             (map (range_long_row self) (rows df0)))
                    (map (consolidation_long_row self) (rows df0)) = map ?L (rows df0)"
    by (simp add: mask_or_def map2_same)
  have m2: "mask_or (mask_or (map (short_breakout_row self) (rows df0))
                             (map (range_short_row self) (rows df0)))
                    (map (consolidation_short_row self) (rows df0)) = map ?S (rows df0)"
    by (simp add: mask_or_def map2_same)
  have s1: "loc_mask_set df0 (map ?L (rows df0)) ''enter'' (Num 1) =
            Inr (df0\<lparr>rows := map ?f (rows df0)\<rparr>)"
    using loc_mask_set_map [OF enter0, of "\<lambda>r. r" "rows df0" ?L "Num 1"] by simp
  have s2: "loc_mask_set (df0\<lparr>rows := map ?f (rows df0)\<rparr>) (map ?S (rows df0)) ''enter'' (Num (- 1)) =
            Inr (df0\<lparr>rows := map (\<lambda>r. if ?S r then (?f r)(''enter'' := Num (- 1)) else ?f r) (rows df0)\<rparr>)"
    using loc_mask_set_map [of "''enter''" "df0\<lparr>rows := map ?f (rows df0)\<rparr>" ?f "rows df0" ?S "Num (- 1)"]
      enter0 by simp
  have run: "populate_entry_trend self df =
        Inr (df0\<lparr>rows := map (\<lambda>r. if ?S r then (?f r)(''enter'' := Num (- 1)) else ?f r) (rows df0)\<rparr>)"
    unfolding populate_entry_trend_def
    by (simp only: z len0 if_False long_breakout_rows [OF cols0] short_breakout_rows [OF cols0]
        range_long_rows [OF cols0] range_short_rows [OF cols0]
        consolidation_long_rows [OF cols0] consolidation_short_rows [OF cols0]
        and_then_Inr m1 m2 s1 s2)
  have "df0\<lparr>rows := map (\<lambda>r. if ?S r then (?f r)(''enter'' := Num (- 1)) else ?f r) (rows df0)\<rparr> =
        df\<lparr>columns := with_column ''enter'' (columns df),
           rows := map (\<lambda>r. r(''enter'' := entry_value self r)) (rows df)\<rparr>"
    by (simp add: df0_def entry_value_def o_def
        long_entry_row_def [symmetric] short_entry_row_def [symmetric] disj_assoc)
  with run show ?thesis by simp
qed

lemma populate_exit_trend_rows:
  assumes cols: "set (exit_columns self) \<subseteq> set (columns df)"
    and ne: "rows df \<noteq> []"
  shows "populate_exit_trend self df =
         Inr (df\<lparr>columns := with_column ''exit'' (columns df),
                 rows := map (\<lambda>r. r(''exit'' := exit_value self r)) (rows df)\<rparr>)"
proof -
  define df0 where "df0 = df\<lparr>columns := with_column ''exit'' (columns df),
                             rows := map (\<lambda>r. r(''exit'' := Num 0)) (rows df)\<rparr>"
  have z: "loc_all_set df ''exit'' (Num 0) = Inr df0"
    using ne by (simp add: loc_all_set_rows df0_def)
  have cols0: "set (exit_columns self) \<subseteq> set (columns df0)"
    using cols by (auto simp: df0_def)
  have exit0: "''exit'' \<in> set (columns df0)"
    by (simp add: df0_def)
  let ?L = "exit_long_row self"
  let ?S = "exit_short_row self"
  let ?f = "\<lambda>r. if ?L r then r(''exit'' := Num 1) else r"
  have s1: "loc_mask_set df0 (map ?L (rows df0)) ''exit'' (Num 1) =
            Inr (df0\<lparr>rows := map ?f (rows df0)\<rparr>)"
    using loc_mask_set_map [OF exit0, of "\<lambda>r. r" "rows df0" ?L "Num 1"] by simp
  have s2: "loc_mask_set (df0\<lparr>rows := map ?f (rows df0)\<rparr>) (map ?S (rows df0)) ''exit'' (Num (- 1)) =
            Inr (df0\<lparr>rows := map (\<lambda>r. if ?S r then (?f r)(''exit'' := Num (- 1)) else ?f r) (rows df0)\<rparr>)"
    using loc_mask_set_map [of "''exit''" "df0\<lparr>rows := map ?f (rows df0)\<rparr>" ?f "rows df0" ?S "Num (- 1)"]
      exit0 by simp
  have run: "populate_exit_trend self df =
        Inr (df0\<lparr>rows := map (\<lambda>r. if ?S r then (?f r)(''exit'' := Num (- 1)) else ?f r) (rows df0)\<rparr>)"
    unfolding populate_exit_trend_def
    by (simp only: z exit_long_rows [OF cols0] exit_short_rows [OF cols0] and_then_Inr s1 s2)
  have "df0\<lparr>rows := map (\<lambda>r. if ?S r then (?f r)(''exit'' := Num (- 1)) else ?f r) (rows df0)\<rparr> =
        df\<lparr>columns := with_column ''exit'' (columns df),
           rows := map (\<lambda>r. r(''exit'' := exit_value self r)) (rows df)\<rparr>"
    by (simp add: df0_def exit_value_def o_def)
  with run show ?thesis by simp
qed



section \<open>Reading the signals\<close>

lemma signal_at_Inr:
  "signal_at (Inr df) name i =
     (if name \<in> set (columns df) \<and> i < length (rows df)
      then Some ((rows df ! i) name) else None)"
  by (simp add: signal_at_def cell_at_def)

lemma entry_signal_short:
  assumes "length (rows df) < startup_candle_count self" and "i < length (rows df)"
  shows "signal_at (populate_entry_trend self df) ''enter'' i = Some (Num 0)"
proof -
  from assms(2) have "rows df \<noteq> []" by auto
  with assms show ?thesis
    by (simp add: populate_entry_trend_short signal_at_Inr)
qed

lemma entry_signal_long:
  assumes "set (entry_columns self) \<subseteq> set (columns df)"
    and "startup_candle_count self \<le> length (rows df)" and "i < length (rows df)"
  shows "signal_at (populate_entry_trend self df) ''enter'' i =
         Some (entry_value self (rows df ! i))"
proof -
  from assms(3) have "rows df \<noteq> []" by auto
  with assms show ?thesis
    by (simp add: populate_entry_trend_long signal_at_Inr)
qed

lemma exit_signal:
  assumes "set (exit_columns self) \<subseteq> set (columns df)" and "i < length (rows df)"
  shows "signal_at (populate_exit_trend self df) ''exit'' i =
         Some (exit_value self (rows df ! i))"
proof -
  from assms(2) have "rows df \<noteq> []" by auto
  with assms show ?thesis
    by (simp add: populate_exit_trend_rows signal_at_Inr)
qed

lemma ema_col_class: "ema_col 20 = ''ema_20''" "ema_col 50 = ''ema_50''"
  by (simp_all add: ema_col_def str_nat.simps)

lemma class_fields:
  "ema_fast ImprovedBreakoutStrategy = 20" "ema_slow ImprovedBreakoutStrategy = 50"
  "rsi_oversold ImprovedBreakoutStrategy = 30" "rsi_overbought ImprovedBreakoutStrategy = 70"
  "adx_threshold ImprovedBreakoutStrategy = 25"
  "startup_candle_count ImprovedBreakoutStrategy = 200"
  by (simp_all add: ImprovedBreakoutStrategy_def)

lemma tuned_fields:
  "ema_fast tuned_strategy = 20" "ema_slow tuned_strategy = 50"
  "rsi_oversold tuned_strategy = 40" "rsi_overbought tuned_strategy = 45"
  "adx_threshold tuned_strategy = 25"
  "startup_candle_count tuned_strategy = 1"
  by (simp_all add: tuned_strategy_def ImprovedBreakoutStrategy_def)

lemma class_columns:
  "set (entry_columns ImprovedBreakoutStrategy) \<subseteq> set table_columns"
  "set (exit_columns ImprovedBreakoutStrategy) \<subseteq> set table_columns"
  "set (entry_columns tuned_strategy) \<subseteq> set table_columns"
  "set (exit_columns tuned_strategy) \<subseteq> set table_columns"
  by (simp_all add: entry_columns_def exit_columns_def class_fields tuned_fields ema_col_class
      table_columns_def)

lemma frame_columns:
  "columns short_frame = table_columns" "columns tiny_frame = table_columns"
  "columns long_frame = table_columns" "columns conflict_frame = table_columns"
  "columns ranging_frame = table_columns"
  by (simp_all add: short_frame_def tiny_frame_def long_frame_def conflict_frame_def
      ranging_frame_def)

lemma frame_lengths:
  "length (rows short_frame) = 100" "length (rows tiny_frame) = 3"
  "length (rows long_frame) = 200" "length (rows conflict_frame) = 1"
  "length (rows ranging_frame) = 200"
  by (simp_all add: short_frame_def tiny_frame_def long_frame_def conflict_frame_def
      ranging_frame_def)

lemma ranging_frame_bars:
  "rows ranging_frame ! 60 = quiet_bar" "rows ranging_frame ! 120 = oversold_bar"
  "rows ranging_frame ! 160 = overbought_bar"
  by (simp_all add: ranging_frame_def nth_append)

lemma short_frame_bars:
  "rows short_frame ! 0 = warmup_bar" "rows short_frame ! 60 = oversold_bar"
  by (simp_all add: short_frame_def nth_append)

lemma long_frame_bars:
  "rows long_frame ! 0 = warmup_bar" "rows long_frame ! 60 = quiet_bar"
  "rows long_frame ! 100 = breakout_bar" "rows long_frame ! 140 = breakdown_bar"
  "rows long_frame ! 180 = oversold_bar"
  by (simp_all add: long_frame_def nth_append)

lemma tiny_frame_bars: "rows tiny_frame ! 0 = breakout_bar"
  by (simp add: tiny_frame_def)

section \<open>Comparisons and example bars\<close>

lemma bar_cells:
  "warmup_bar ''adx'' = NaN" "warmup_bar ''rsi'' = NaN" "warmup_bar ''ema_50'' = NaN"
  "warmup_bar ''close'' = Num 100"
  by (simp_all add: warmup_bar_def bar_def)

lemma cell_ge_lt_False: "cell_ge a (Num k) \<Longrightarrow> cell_lt a (Num k) \<Longrightarrow> False"
  by (cases a) simp_all

lemma cell_gt_lt_False: "cell_gt a b \<Longrightarrow> cell_lt a b \<Longrightarrow> False"
  by (cases a; cases b) simp_all

lemma cell_le_ge_False: "cell_le a (Num k) \<Longrightarrow> cell_ge a (Num k') \<Longrightarrow> k < k' \<Longrightarrow> False"
  by (cases a) simp_all

lemma cell_NaN [simp]:
  "\<not> cell_gt NaN b" "\<not> cell_gt a NaN" "\<not> cell_lt NaN b" "\<not> cell_lt a NaN"
  "\<not> cell_ge NaN b" "\<not> cell_ge a NaN" "\<not> cell_le NaN b" "\<not> cell_le a NaN"
  by (cases a; cases b; simp)+

lemma breakout_excludes_short:
  assumes "long_breakout_row self r"
  shows "\<not> short_entry_row self r"
  using assms
  by (auto simp: long_breakout_row_def short_entry_row_def short_breakout_row_def
      range_short_row_def consolidation_short_row_def
      dest: cell_ge_lt_False cell_gt_lt_False)

lemma long_short_exclusive:
  assumes "rsi_oversold self + 5 < rsi_overbought self - 5"
  shows "\<not> (long_entry_row self r \<and> short_entry_row self r)"
proof
  assume both: "long_entry_row self r \<and> short_entry_row self r"
  have t1: "rsi_oversold self < rsi_overbought self" using assms by simp
  have t2: "rsi_oversold self < rsi_overbought self - 5" using assms by simp
  have t3: "rsi_oversold self + 5 < rsi_overbought self" using assms by simp
  from both show False
    unfolding long_entry_row_def short_entry_row_def long_breakout_row_def
      short_breakout_row_def range_long_row_def range_short_row_def
      consolidation_long_row_def consolidation_short_row_def
    using cell_ge_lt_False [of "r ''adx''" "adx_threshold self"]
      cell_gt_lt_False [of "r ''macd''" "r ''macd_signal''"]
      cell_le_ge_False [OF _ _ t1, of "r ''rsi''"]
      cell_le_ge_False [OF _ _ t2, of "r ''rsi''"]
      cell_le_ge_False [OF _ _ t3, of "r ''rsi''"]
      cell_le_ge_False [OF _ _ assms, of "r ''rsi''"]
    by blast
qed

text \<open>
  A breakout compares the close with the recent high, or low, of the table. With prices
  that are positive doubles and an ATR that is not negative, a bar whose close is at most
  its recent high is no long breakout, and a bar whose close is at least its recent low
  is no short breakout. The indicator hook asks for the recent high as the rolling maximum
  of the highs over the last 20 bars, the bar itself included: where the close of a bar
  is at most its high, that maximum is at least the close, and likewise for the recent
  low. A breakout therefore holds only in a table whose recent extrema are not such
  maxima and minima.
\<close>

lemma breakout_multiplier_nonneg: "0 \<le> breakout_multiplier"
  by (simp add: breakout_multiplier_value)

lemma long_breakout_above_recent_high:
  assumes "r ''close'' = Num c" and "r ''high_recent'' = Num h" and "r ''atr'' = Num a"
    and "0 < h" and "fl h = h" and "0 \<le> a" and "c \<le> h"
  shows "\<not> long_breakout_row self r"
proof -
  have "0 \<le> a * breakout_multiplier"
    using assms(6) breakout_multiplier_nonneg by simp
  then have "0 \<le> fl (a * breakout_multiplier)" by (rule fl_nonneg)
  then have "h \<le> h + fl (a * breakout_multiplier)" by simp
  with assms(4) have "fl h \<le> fl (h + fl (a * breakout_multiplier))" by (rule fl_mono_pos)
  with assms(5,7) have "\<not> c > fl (h + fl (a * breakout_multiplier))" by simp
  then show ?thesis
    using assms(1-3) by (simp add: long_breakout_row_def)
qed

lemma short_breakout_below_recent_low:
  assumes "r ''close'' = Num c" and "r ''low_recent'' = Num l" and "r ''atr'' = Num a"
    and "0 < l" and "fl l = l" and "0 \<le> a" and "l \<le> c"
  shows "\<not> short_breakout_row self r"
proof -
  have "0 \<le> a * breakout_multiplier"
    using assms(6) breakout_multiplier_nonneg by simp
  then have t: "0 \<le> fl (a * breakout_multiplier)" by (rule fl_nonneg)
  have "fl (l - fl (a * breakout_multiplier)) \<le> l"
  proof (cases "0 < l - fl (a * breakout_multiplier)")
    case True
    moreover have "l - fl (a * breakout_multiplier) \<le> l" using t by simp
    ultimately have "fl (l - fl (a * breakout_multiplier)) \<le> fl l" by (rule fl_mono_pos)
    with assms(5) show ?thesis by simp
  next
    case False
    then have "fl (l - fl (a * breakout_multiplier)) \<le> 0" by (simp add: fl_nonpos)
    with assms(4) show ?thesis by simp
  qed
  with assms(7) have "\<not> c < fl (l - fl (a * breakout_multiplier))" by simp
  then show ?thesis
    using assms(1-3) by (simp add: short_breakout_row_def)
qed

lemma oversold_bar_rows:
  "range_long_row ImprovedBreakoutStrategy oversold_bar"
  "\<not> short_entry_row ImprovedBreakoutStrategy oversold_bar"
  "exit_long_row ImprovedBreakoutStrategy oversold_bar"
  "exit_short_row ImprovedBreakoutStrategy oversold_bar"
  by (simp_all add: range_long_row_def short_entry_row_def short_breakout_row_def
      range_short_row_def consolidation_short_row_def exit_long_row_def exit_short_row_def
      class_fields ema_col_class oversold_bar_def bar_def)

lemma overbought_bar_rows:
  "range_short_row ImprovedBreakoutStrategy overbought_bar"
  "\<not> long_entry_row ImprovedBreakoutStrategy overbought_bar"
  by (simp_all add: range_short_row_def long_entry_row_def long_breakout_row_def
      range_long_row_def consolidation_long_row_def class_fields ema_col_class
      overbought_bar_def bar_def)

lemma quiet_bar_rows:
  "\<not> long_entry_row ImprovedBreakoutStrategy quiet_bar"
  "\<not> short_entry_row ImprovedBreakoutStrategy quiet_bar"
  by (simp_all add: short_entry_row_def short_breakout_row_def range_short_row_def
      consolidation_short_row_def long_entry_row_def long_breakout_row_def
      range_long_row_def consolidation_long_row_def class_fields ema_col_class
      quiet_bar_def bar_def)

lemma breakout_bar_cells:
  "breakout_bar ''close'' = Num 110" "breakout_bar ''high_recent'' = Num 100"
  "breakout_bar ''atr'' = Num 10" "breakout_bar ''macd'' = Num 2"
  "breakout_bar ''macd_signal'' = Num 1" "breakout_bar ''ema_50'' = Num 100"
  "breakout_bar ''volume'' = Num 1000" "breakout_bar ''vol_ma20'' = Num 1000"
  "breakout_bar ''adx'' = Num 30" "breakout_bar ''rsi'' = Num 60"
  "breakout_bar ''ema_20'' = Num 105" "breakout_bar ''low_recent'' = Num 90"
  by (simp_all add: breakout_bar_def bar_def)

lemma breakout_bar_rows:
  "long_breakout_row ImprovedBreakoutStrategy breakout_bar"
  "\<not> short_entry_row ImprovedBreakoutStrategy breakout_bar"
  by (simp_all add: long_breakout_row_def short_entry_row_def short_breakout_row_def
      range_short_row_def consolidation_short_row_def class_fields ema_col_class
      breakout_bar_cells fl_examples)

text \<open>
  Two bars at which the rounding of doubles decides a breakout comparison. The exact
  difference \<open>50 - 45 * 0.7\<close> is 18.5, the double difference lies above it; the exact
  sum \<open>100 + 0.7\<close> lies below the double nearest to 100.7, the double sum is that double.
\<close>

lemma rounding_edges:
  "cell_lt (Num 18.5) (cell_fsub (Num 50) (cell_fmul (Num 45) (Num breakout_multiplier)))"
  "\<not> cell_gt (Num (fl 100.7))
       (cell_fadd (Num 100) (cell_fmul (Num 1) (Num breakout_multiplier)))"
proof -
  have a: "fl (45 * breakout_multiplier) = 8866461766385663 / 2 ^ 48"
    unfolding breakout_multiplier_value
    by (subst fl_ge_one [of 4]) (simp_all add: round_half_even_def Let_def)
  have b: "fl (50 - 8866461766385663 / 2 ^ 48) = 5207287069147137 / 2 ^ 48"
    by (subst fl_ge_one [of 4]) (simp_all add: round_half_even_def Let_def)
  have "(18.5::real) < 5207287069147137 / 2 ^ 48" by simp
  then show "cell_lt (Num 18.5) (cell_fsub (Num 50) (cell_fmul (Num 45) (Num breakout_multiplier)))"
    by (simp only: cell_fmul.simps cell_fsub.simps a b cell_lt.simps)
  have c: "fl (1 * breakout_multiplier) = 6305039478318694 / 9007199254740992"
    unfolding breakout_multiplier_value
    by (subst fl_lt_one [of _ 1]) (simp_all add: round_half_even_def Let_def)
  have d: "fl (100 + 6305039478318694 / 9007199254740992) = 7086132538690765 / 2 ^ 46"
    by (subst fl_ge_one [of 6]) (simp_all add: round_half_even_def Let_def)
  have e: "fl 100.7 = 7086132538690765 / 2 ^ 46"
    by (subst fl_ge_one [of 6]) (simp_all add: round_half_even_def Let_def)
  show "\<not> cell_gt (Num (fl 100.7))
       (cell_fadd (Num 100) (cell_fmul (Num 1) (Num breakout_multiplier)))"
    by (simp only: cell_fmul.simps cell_fadd.simps c d e cell_gt.simps)
qed

lemma bar_exit_rows:
  "exit_short_row ImprovedBreakoutStrategy breakout_bar"
  "\<not> exit_long_row ImprovedBreakoutStrategy breakout_bar"
  "exit_long_row ImprovedBreakoutStrategy breakdown_bar"
  "\<not> exit_short_row ImprovedBreakoutStrategy breakdown_bar"
  "\<not> exit_long_row ImprovedBreakoutStrategy quiet_bar"
  "\<not> exit_short_row ImprovedBreakoutStrategy quiet_bar"
  by (simp_all add: exit_long_row_def exit_short_row_def class_fields ema_col_class
      breakout_bar_def breakdown_bar_def quiet_bar_def bar_def)

section \<open>Entry signals of a short series\<close>

text \<open>
  Claim C1. For every table with fewer bars than the warm-up count of the strategy (200
  in the class), \<open>populate_entry_trend\<close> returns a table whose \<open>enter\<close> column is 0 at
  every bar, whatever the indicator cells hold.
\<close>

theorem C1_short_series_entry_zero:
  assumes "length (rows df) < startup_candle_count self" and "i < length (rows df)"
  shows "signal_at (populate_entry_trend self df) ''enter'' i = Some (Num 0)"
  using assms by (rule entry_signal_short)

text \<open>Three bars that all meet the long breakout, under the class's count of 200.\<close>

theorem C1_short_series_entry_zero_witness:
  "long_breakout_row ImprovedBreakoutStrategy (rows tiny_frame ! 0) \<and>
   length (rows tiny_frame) = 3 \<and> startup_candle_count ImprovedBreakoutStrategy = 200 \<and>
   signal_at (populate_entry_trend ImprovedBreakoutStrategy tiny_frame) ''enter'' 0 = Some (Num 0)"
  using C1_short_series_entry_zero [of tiny_frame ImprovedBreakoutStrategy 0]
  by (simp add: frame_lengths class_fields tiny_frame_bars breakout_bar_rows)

section \<open>Exit signals of a short series\<close>

text \<open>
  Claim C2. For a table with fewer bars than the warm-up count, the entry signal and the
  exit signal are both 0 at every bar. The entry hook does so (C1); the exit hook has no
  test of the table's length. Evaluated on a table of 100 bars, under the class's count of
  200: at bar 60 the close 97 is below EMA-slow 100 and RSI 25 is at most 30, the entry
  hook leaves 0 and the exit hook leaves -1.
\<close>

theorem C2_exit_of_short_series:
  "length (rows short_frame) = 100 \<and>
   startup_candle_count ImprovedBreakoutStrategy = 200 \<and>
   signal_at (populate_entry_trend ImprovedBreakoutStrategy short_frame) ''enter'' 60 = Some (Num 0) \<and>
   signal_at (populate_exit_trend ImprovedBreakoutStrategy short_frame) ''exit'' 60 = Some (Num (- 1))"
proof -
  have "signal_at (populate_exit_trend ImprovedBreakoutStrategy short_frame) ''exit'' 60 =
        Some (exit_value ImprovedBreakoutStrategy oversold_bar)"
    using exit_signal [of ImprovedBreakoutStrategy short_frame 60]
    by (simp add: frame_columns class_columns frame_lengths short_frame_bars)
  moreover have "signal_at (populate_entry_trend ImprovedBreakoutStrategy short_frame) ''enter'' 60 = Some (Num 0)"
    using entry_signal_short [of short_frame ImprovedBreakoutStrategy 60]
    by (simp add: frame_lengths class_fields)
  ultimately show ?thesis
    by (simp add: exit_value_def oversold_bar_rows frame_lengths class_fields)
qed

section \<open>Bars before the end of the warm-up\<close>

text \<open>
  Claim C3, as stated: in every table, each of the first 200 bars has entry 0 and exit 0.
  The entry hook tests the number of bars of the whole table, not the index of a bar: in
  a table of 200 bars, bar 180 (weak trend, oversold, close above EMA-fast) gets entry 1.
\<close>

theorem C3_early_bar_signal_counterexample:
  "length (rows long_frame) = 200 \<and> startup_candle_count ImprovedBreakoutStrategy = 200 \<and>
   signal_at (populate_entry_trend ImprovedBreakoutStrategy long_frame) ''enter'' 180 = Some (Num 1)"
proof -
  have "signal_at (populate_entry_trend ImprovedBreakoutStrategy long_frame) ''enter'' 180 =
        Some (entry_value ImprovedBreakoutStrategy oversold_bar)"
    using entry_signal_long [of ImprovedBreakoutStrategy long_frame 180]
    by (simp add: frame_columns class_columns frame_lengths long_frame_bars class_fields)
  then show ?thesis
    by (simp add: entry_value_def long_entry_row_def oversold_bar_rows frame_lengths
        class_fields)
qed

text \<open>
  Claim C3, amended. In a table with fewer bars than the warm-up count every bar has
  entry 0. In a table of any length, a bar whose ADX is not available has entry 0, and a
  bar whose EMA-slow and RSI are both not available has exit 0 (the hooks return, given
  the columns they read).
\<close>

theorem C3_unavailable_indicators_no_signal:
  assumes "i < length (rows df)"
  shows
    "(length (rows df) < startup_candle_count self
      \<longrightarrow> signal_at (populate_entry_trend self df) ''enter'' i = Some (Num 0)) \<and>
     (set (entry_columns self) \<subseteq> set (columns df) \<and> (rows df ! i) ''adx'' = NaN
      \<longrightarrow> signal_at (populate_entry_trend self df) ''enter'' i = Some (Num 0)) \<and>
     (set (exit_columns self) \<subseteq> set (columns df) \<and>
      (rows df ! i) (ema_col (ema_slow self)) = NaN \<and> (rows df ! i) ''rsi'' = NaN
      \<longrightarrow> signal_at (populate_exit_trend self df) ''exit'' i = Some (Num 0))"
proof (intro conjI impI)
  assume "length (rows df) < startup_candle_count self"
  then show "signal_at (populate_entry_trend self df) ''enter'' i = Some (Num 0)"
    using assms by (rule entry_signal_short)
next
  assume a: "set (entry_columns self) \<subseteq> set (columns df) \<and> (rows df ! i) ''adx'' = NaN"
  then have none: "entry_value self (rows df ! i) = Num 0"
    by (simp add: entry_value_def long_entry_row_def short_entry_row_def
        long_breakout_row_def short_breakout_row_def range_long_row_def range_short_row_def
        consolidation_long_row_def consolidation_short_row_def)
  show "signal_at (populate_entry_trend self df) ''enter'' i = Some (Num 0)"
  proof (cases "length (rows df) < startup_candle_count self")
    case True
    then show ?thesis using assms by (rule entry_signal_short)
  next
    case False
    then show ?thesis
      using a assms none by (simp add: entry_signal_long)
  qed
next
  assume a: "set (exit_columns self) \<subseteq> set (columns df) \<and>
      (rows df ! i) (ema_col (ema_slow self)) = NaN \<and> (rows df ! i) ''rsi'' = NaN"
  then have "exit_value self (rows df ! i) = Num 0"
    by (simp add: exit_value_def exit_long_row_def exit_short_row_def)
  then show "signal_at (populate_exit_trend self df) ''exit'' i = Some (Num 0)"
    using a assms by (simp add: exit_signal)
qed

text \<open>Bar 60 of the table of 100 bars, and the first warm-up bar of the table of 200.\<close>

theorem C3_unavailable_indicators_no_signal_witness:
  "signal_at (populate_entry_trend ImprovedBreakoutStrategy short_frame) ''enter'' 60 = Some (Num 0) \<and>
   cell_at long_frame ''adx'' 0 = NaN \<and>
   signal_at (populate_entry_trend ImprovedBreakoutStrategy long_frame) ''enter'' 0 = Some (Num 0) \<and>
   cell_at long_frame ''ema_50'' 0 = NaN \<and> cell_at long_frame ''rsi'' 0 = NaN \<and>
   signal_at (populate_exit_trend ImprovedBreakoutStrategy long_frame) ''exit'' 0 = Some (Num 0)"
  using C3_unavailable_indicators_no_signal [of 60 short_frame ImprovedBreakoutStrategy]
    C3_unavailable_indicators_no_signal [of 0 long_frame ImprovedBreakoutStrategy]
  by (simp add: frame_lengths frame_columns class_columns class_fields long_frame_bars
      bar_cells ema_col_class cell_at_def)

section \<open>The exit rule\<close>

text \<open>
  Claim C4. Given the columns the exit hook reads, at every bar: exit is -1 exactly when
  close is above EMA-slow or RSI is at most the oversold threshold (30); exit is 1
  exactly when close is below EMA-slow or RSI is at least the overbought threshold (70),
  unless the short-exit condition holds as well; when both conditions hold exit is -1,
  the short-exit assignment being made last; exit is 0 exactly when neither holds.
\<close>

theorem C4_exit_rule:
  assumes "set (exit_columns self) \<subseteq> set (columns df)" and "i < length (rows df)"
  shows
    "(signal_at (populate_exit_trend self df) ''exit'' i = Some (Num (- 1))
        \<longleftrightarrow> exit_short_row self (rows df ! i)) \<and>
     (signal_at (populate_exit_trend self df) ''exit'' i = Some (Num 1)
        \<longleftrightarrow> exit_long_row self (rows df ! i) \<and> \<not> exit_short_row self (rows df ! i)) \<and>
     (signal_at (populate_exit_trend self df) ''exit'' i = Some (Num 0)
        \<longleftrightarrow> \<not> exit_long_row self (rows df ! i) \<and> \<not> exit_short_row self (rows df ! i)) \<and>
     (exit_long_row self (rows df ! i) \<and> exit_short_row self (rows df ! i)
        \<longrightarrow> signal_at (populate_exit_trend self df) ''exit'' i = Some (Num (- 1)))"
  unfolding exit_signal [OF assms] by (simp add: exit_value_def)

text \<open>A long breakout, a short breakout, a quiet bar and an oversold bar below EMA-slow.\<close>

theorem C4_exit_rule_witness:
  "signal_at (populate_exit_trend ImprovedBreakoutStrategy long_frame) ''exit'' 100 = Some (Num (- 1)) \<and>
   signal_at (populate_exit_trend ImprovedBreakoutStrategy long_frame) ''exit'' 140 = Some (Num 1) \<and>
   signal_at (populate_exit_trend ImprovedBreakoutStrategy long_frame) ''exit'' 60 = Some (Num 0) \<and>
   signal_at (populate_exit_trend ImprovedBreakoutStrategy long_frame) ''exit'' 180 = Some (Num (- 1))"
proof -
  have cols: "set (exit_columns ImprovedBreakoutStrategy) \<subseteq> set (columns long_frame)"
    by (simp add: frame_columns class_columns)
  show ?thesis
    using C4_exit_rule [OF cols, of 100] C4_exit_rule [OF cols, of 140]
      C4_exit_rule [OF cols, of 60] C4_exit_rule [OF cols, of 180]
    by (simp add: frame_lengths long_frame_bars bar_exit_rows oversold_bar_rows)
qed

section \<open>The entry rule\<close>

text \<open>
  Claim C5. In a table of at least the warm-up count of bars, given the columns the entry
  hook reads: a bar where close exceeds the recent high plus 0.7 times ATR, macd exceeds
  its signal, close exceeds EMA-slow, volume is at least the volume multiplier (0.8)
  times the volume average, ADX is at least the threshold (25) and no short group holds,
  has entry 1; a bar where a short group holds and no long group does has entry -1; a bar
  where no group holds has entry 0. The sum and the two products are the doubles the
  code computes, and 0.7 and 0.8 the doubles nearest to them. Moreover entry is -1
  exactly when a short group holds, 1 exactly when a long group holds and no short group
  does, and 0 exactly when no group holds.
\<close>

theorem C5_entry_rule:
  assumes "set (entry_columns self) \<subseteq> set (columns df)"
    and "startup_candle_count self \<le> length (rows df)" and "i < length (rows df)"
  shows
    "((rows df ! i) ''close'' = Num c \<and> (rows df ! i) ''high_recent'' = Num h \<and>
      (rows df ! i) ''atr'' = Num a \<and> (rows df ! i) ''macd'' = Num m \<and>
      (rows df ! i) ''macd_signal'' = Num s \<and>
      (rows df ! i) (ema_col (ema_slow self)) = Num e \<and>
      (rows df ! i) ''volume'' = Num v \<and> (rows df ! i) ''vol_ma20'' = Num vm \<and>
      (rows df ! i) ''adx'' = Num x \<and>
      c > fl (h + fl (a * breakout_multiplier)) \<and> m > s \<and> c > e \<and>
      v \<ge> fl (vm * min_volume_multiplier self) \<and>
      x \<ge> adx_threshold self \<and> \<not> short_entry_row self (rows df ! i)
      \<longrightarrow> signal_at (populate_entry_trend self df) ''enter'' i = Some (Num 1)) \<and>
     (short_entry_row self (rows df ! i) \<and> \<not> long_entry_row self (rows df ! i)
      \<longrightarrow> signal_at (populate_entry_trend self df) ''enter'' i = Some (Num (- 1))) \<and>
     (\<not> long_entry_row self (rows df ! i) \<and> \<not> short_entry_row self (rows df ! i)
      \<longrightarrow> signal_at (populate_entry_trend self df) ''enter'' i = Some (Num 0)) \<and>
     (signal_at (populate_entry_trend self df) ''enter'' i = Some (Num (- 1))
      \<longleftrightarrow> short_entry_row self (rows df ! i)) \<and>
     (signal_at (populate_entry_trend self df) ''enter'' i = Some (Num 1)
      \<longleftrightarrow> long_entry_row self (rows df ! i) \<and> \<not> short_entry_row self (rows df ! i)) \<and>
     (signal_at (populate_entry_trend self df) ''enter'' i = Some (Num 0)
      \<longleftrightarrow> \<not> long_entry_row self (rows df ! i) \<and> \<not> short_entry_row self (rows df ! i))"
proof -
  have sig: "signal_at (populate_entry_trend self df) ''enter'' i =
             Some (entry_value self (rows df ! i))"
    using assms by (rule entry_signal_long)
  have "long_breakout_row self (rows df ! i)"
    if "(rows df ! i) ''close'' = Num c" "(rows df ! i) ''high_recent'' = Num h"
      "(rows df ! i) ''atr'' = Num a" "(rows df ! i) ''macd'' = Num m"
      "(rows df ! i) ''macd_signal'' = Num s"
      "(rows df ! i) (ema_col (ema_slow self)) = Num e"
      "(rows df ! i) ''volume'' = Num v" "(rows df ! i) ''vol_ma20'' = Num vm"
      "(rows df ! i) ''adx'' = Num x"
      "c > fl (h + fl (a * breakout_multiplier))" "m > s" "c > e"
      "v \<ge> fl (vm * min_volume_multiplier self)" "x \<ge> adx_threshold self"
    using that by (simp add: long_breakout_row_def)
  then show ?thesis
    unfolding sig by (auto simp: entry_value_def long_entry_row_def)
qed

text \<open>
  Bars 120 (oversold, range long), 160 (overbought, range short) and 60 (quiet) of the
  ranging table. For the breakout, bar 100 of the table of 200 bars, with close 110,
  recent high 100 and ATR 10: the threshold is the double sum of 100 and 7. That bar is
  of a table handed to the entry hook as it is: its close lies above its recent high,
  which the rolling maximum of the indicator hook does not allow (lemma
  \<open>long_breakout_above_recent_high\<close>).
\<close>

theorem C5_entry_rule_witness:
  "signal_at (populate_entry_trend ImprovedBreakoutStrategy ranging_frame) ''enter'' 120 = Some (Num 1) \<and>
   signal_at (populate_entry_trend ImprovedBreakoutStrategy ranging_frame) ''enter'' 160 = Some (Num (- 1)) \<and>
   signal_at (populate_entry_trend ImprovedBreakoutStrategy ranging_frame) ''enter'' 60 = Some (Num 0) \<and>
   110 > fl (100 + fl (10 * breakout_multiplier)) \<and>
   signal_at (populate_entry_trend ImprovedBreakoutStrategy long_frame) ''enter'' 100 = Some (Num 1)"
proof -
  have cols: "set (entry_columns ImprovedBreakoutStrategy) \<subseteq> set (columns ranging_frame)"
    and cols': "set (entry_columns ImprovedBreakoutStrategy) \<subseteq> set (columns long_frame)"
    by (simp_all add: frame_columns class_columns)
  have len: "startup_candle_count ImprovedBreakoutStrategy \<le> length (rows ranging_frame)"
    and len': "startup_candle_count ImprovedBreakoutStrategy \<le> length (rows long_frame)"
    by (simp_all add: frame_lengths class_fields)
  have a: "signal_at (populate_entry_trend ImprovedBreakoutStrategy ranging_frame) ''enter'' 120 = Some (Num 1)"
    using C5_entry_rule [OF cols len, of 120]
    by (simp add: frame_lengths ranging_frame_bars long_entry_row_def oversold_bar_rows)
  have b: "signal_at (populate_entry_trend ImprovedBreakoutStrategy ranging_frame) ''enter'' 160 = Some (Num (- 1))"
    using C5_entry_rule [OF cols len, of 160]
    by (simp add: frame_lengths ranging_frame_bars short_entry_row_def overbought_bar_rows)
  have c: "signal_at (populate_entry_trend ImprovedBreakoutStrategy ranging_frame) ''enter'' 60 = Some (Num 0)"
    using C5_entry_rule [OF cols len, of 60]
    by (simp add: frame_lengths ranging_frame_bars quiet_bar_rows)
  have t: "110 > fl (100 + fl (10 * breakout_multiplier))"
    by (simp add: fl_examples)
  have d: "signal_at (populate_entry_trend ImprovedBreakoutStrategy long_frame) ''enter'' 100 = Some (Num 1)"
    using C5_entry_rule [OF cols' len', of 100 110 100 10 2 1 100 1000 1000 30]
      breakout_bar_rows(2) t
    by (simp add: frame_lengths long_frame_bars class_fields ema_col_class
        breakout_bar_cells fl_examples)
  from a b c t d show ?thesis by simp
qed

text \<open>
  Claim C6. When a long group and a short group both hold at a bar for which the masks
  are evaluated (the table has at least the warm-up count of bars), entry is -1: the
  short assignment comes after the long one.
\<close>

theorem C6_short_wins_conflict:
  assumes "set (entry_columns self) \<subseteq> set (columns df)"
    and "startup_candle_count self \<le> length (rows df)" and "i < length (rows df)"
    and "long_entry_row self (rows df ! i)" and "short_entry_row self (rows df ! i)"
  shows "signal_at (populate_entry_trend self df) ''enter'' i = Some (Num (- 1))"
  using assms by (simp add: entry_signal_long entry_value_def)

text \<open>
  A conflict needs thresholds other than the class's (see C7): with oversold 40 and
  overbought 45, a bar with RSI 40, ADX 20, close above EMA-fast and macd below its signal
  meets range long and consolidation short.
\<close>

theorem C6_short_wins_conflict_witness:
  "range_long_row tuned_strategy (rows conflict_frame ! 0) \<and>
   consolidation_short_row tuned_strategy (rows conflict_frame ! 0) \<and>
   signal_at (populate_entry_trend tuned_strategy conflict_frame) ''enter'' 0 = Some (Num (- 1))"
proof -
  have l: "range_long_row tuned_strategy conflict_bar"
    and s: "consolidation_short_row tuned_strategy conflict_bar"
    by (simp_all add: range_long_row_def consolidation_short_row_def tuned_fields
        ema_col_class conflict_bar_def bar_def)
  have "signal_at (populate_entry_trend tuned_strategy conflict_frame) ''enter'' 0 = Some (Num (- 1))"
    using C6_short_wins_conflict [of tuned_strategy conflict_frame 0] l s
    by (simp add: conflict_frame_def class_columns tuned_fields long_entry_row_def
        short_entry_row_def)
  with l s show ?thesis by (simp add: conflict_frame_def)
qed

text \<open>
  Claim C7. With RSI thresholds whose bands are disjoint (oversold + 5 below overbought
  - 5, as 35 and 65 in the class), no bar meets a long group and a short group, be its
  cells numbers or \<open>NaN\<close>; so a bar that meets a long group keeps the 1 of the long
  assignment.
\<close>

theorem C7_long_short_exclusive:
  assumes "rsi_oversold self + 5 < rsi_overbought self - 5"
  shows
    "(\<forall>r. \<not> (long_entry_row self r \<and> short_entry_row self r)) \<and>
     (set (entry_columns self) \<subseteq> set (columns df) \<and>
      startup_candle_count self \<le> length (rows df) \<and> i < length (rows df) \<and>
      long_entry_row self (rows df ! i)
      \<longrightarrow> signal_at (populate_entry_trend self df) ''enter'' i = Some (Num 1))"
proof (intro conjI allI impI)
  fix r show "\<not> (long_entry_row self r \<and> short_entry_row self r)"
    using assms by (rule long_short_exclusive)
next
  assume a: "set (entry_columns self) \<subseteq> set (columns df) \<and>
      startup_candle_count self \<le> length (rows df) \<and> i < length (rows df) \<and>
      long_entry_row self (rows df ! i)"
  then have "\<not> short_entry_row self (rows df ! i)"
    using long_short_exclusive [OF assms, of "rows df ! i"] by simp
  with a show "signal_at (populate_entry_trend self df) ''enter'' i = Some (Num 1)"
    by (simp add: entry_signal_long entry_value_def)
qed

text \<open>The class, and bar 180 of the table of 200 bars, which meets range long.\<close>

theorem C7_long_short_exclusive_witness:
  "rsi_oversold ImprovedBreakoutStrategy = 30 \<and> rsi_overbought ImprovedBreakoutStrategy = 70 \<and>
   (\<forall>r. \<not> (long_entry_row ImprovedBreakoutStrategy r \<and> short_entry_row ImprovedBreakoutStrategy r)) \<and>
   long_entry_row ImprovedBreakoutStrategy (rows long_frame ! 180) \<and>
   signal_at (populate_entry_trend ImprovedBreakoutStrategy long_frame) ''enter'' 180 = Some (Num 1)"
  using C7_long_short_exclusive [of ImprovedBreakoutStrategy long_frame 180]
  by (simp add: class_fields frame_columns class_columns frame_lengths long_frame_bars
      long_entry_row_def oversold_bar_rows)

section \<open>The indicator hook\<close>

lemma columns_put [simp]: "set (columns (put df name s)) = insert name (set (columns df))"
  by (simp add: put_def)

lemma map_put_rows:
  "length s = length rs \<Longrightarrow>
     map (\<lambda>r. r n) (map2 (\<lambda>v r. r(name := v)) s rs) = (if n = name then s else map (\<lambda>r. r n) rs)"
  by (induction s rs rule: list_induct2) auto

lemma getitem_put:
  "length s = length (rows df) \<Longrightarrow>
     getitem (put df name s) n = (if n = name then Inr s else getitem df n)"
  by (simp add: getitem_def put_def map_put_rows del: map_map)

lemma setitem_ok:
  "length s = length (rows df) \<Longrightarrow> setitem df name s = Inr (put df name s)"
  by (simp add: setitem_def)

lemma signal_at_getitem:
  "signal_at (Inr df) name i =
     (case getitem df name of Inl e \<Rightarrow> None
      | Inr s \<Rightarrow> if i < length s then Some (s ! i) else None)"
  by (simp add: signal_at_def getitem_def cell_at_def)

lemma ema_col_not_price [simp]:
  "ema_col p \<noteq> ''close''" "ema_col p \<noteq> ''high''" "ema_col p \<noteq> ''low''"
  "ema_col p \<noteq> ''volume''" "''close'' \<noteq> ema_col p" "''high'' \<noteq> ema_col p"
  "''low'' \<noteq> ema_col p" "''volume'' \<noteq> ema_col p"
  by (simp_all add: ema_col_def)

lemma length_series_sub [simp]:
  "length (series_sub a b) = min (length a) (length b)"
  "length (series_fsub a b) = min (length a) (length b)"
  by (simp_all add: series_sub_def series_fsub_def)

lemma put_length [simp]:
  "length s = length (rows df) \<Longrightarrow> length (rows (put df name s)) = length (rows df)"
  by (simp add: put_def)

lemma ema_col_not_indicator [simp]:
  "ema_col p \<noteq> ''rsi''" "ema_col p \<noteq> ''macd''" "ema_col p \<noteq> ''macd_signal''"
  "ema_col p \<noteq> ''macd_hist''" "ema_col p \<noteq> ''adx''" "ema_col p \<noteq> ''atr''"
  "ema_col p \<noteq> ''vol_ma20''" "ema_col p \<noteq> ''high_recent''" "ema_col p \<noteq> ''low_recent''"
  "ema_col p \<noteq> ''price_above_ema_slow''"
  by (simp_all add: ema_col_def)

lemma populate_indicators_puts:
  assumes al: "aligned ta"
    and cols: "{''close'', ''high'', ''low'', ''volume''} \<subseteq> set (columns df)"
  shows "populate_indicators ta self df =
         Inr (puts df (indicator_series ta self (map (\<lambda>r. r ''close'') (rows df))
                (map (\<lambda>r. r ''high'') (rows df)) (map (\<lambda>r. r ''low'') (rows df))
                (map (\<lambda>r. r ''volume'') (rows df))))"
proof -
  from al have A [simp]:
    "\<And>s p. length (ema ta s p) = length s" "\<And>s p. length (rsi ta s p) = length s"
    "\<And>h l c p. length (adx ta h l c p) = length c" "\<And>h l c p. length (atr ta h l c p) = length c"
    "\<And>s p. length (rolling_mean ta s p) = length s"
    "\<And>s p. length (rolling_max ta s p) = length s"
    "\<And>s p. length (rolling_min ta s p) = length s"
    by (simp_all add: aligned_def)
  define c where "c = map (\<lambda>r. r ''close'') (rows df)"
  define h where "h = map (\<lambda>r. r ''high'') (rows df)"
  define l where "l = map (\<lambda>r. r ''low'') (rows df)"
  define v where "v = map (\<lambda>r. r ''volume'') (rows df)"
  have N [simp]: "length c = length (rows df)" "length h = length (rows df)"
    "length l = length (rows df)" "length v = length (rows df)"
    by (simp_all add: c_def h_def l_def v_def)
  define line where "line = series_sub (ema ta c (macd_fast self)) (ema ta c (macd_slow self))"
  define sig where "sig = ema ta line (macd_signal self)"
  define m where "m = \<lparr>macd = line, macdsignal = sig, macdhist = series_sub line sig\<rparr>"
  have NL [simp]: "length line = length (rows df)" "length sig = length (rows df)"
    by (simp_all add: line_def sig_def)
  have P0: "getitem df ''close'' = Inr c" "getitem df ''high'' = Inr h"
    "getitem df ''low'' = Inr l" "getitem df ''volume'' = Inr v"
    using cols by (simp_all add: getitem_present c_def h_def l_def v_def)
  define d1 where "d1 = put df (ema_col (ema_fast self)) (ema ta c (ema_fast self))"
  have L1: "length (rows d1) = length (rows df)"
    by (simp add: d1_def)
  have P1: "getitem d1 ''close'' = Inr c" "getitem d1 ''high'' = Inr h"
    "getitem d1 ''low'' = Inr l" "getitem d1 ''volume'' = Inr v"
    by (simp_all add: d1_def getitem_put P0)
  have S1: "and_then (EMA ta df (ema_fast self)) (setitem df (ema_col (ema_fast self))) = Inr d1"
    by (simp add: EMA_def P0 lift_Inr setitem_ok d1_def)
  define d2 where "d2 = put d1 (ema_col (ema_slow self)) (ema ta c (ema_slow self))"
  have L2: "length (rows d2) = length (rows df)"
    by (simp add: d2_def L1)
  have P2: "getitem d2 ''close'' = Inr c" "getitem d2 ''high'' = Inr h"
    "getitem d2 ''low'' = Inr l" "getitem d2 ''volume'' = Inr v"
    by (simp_all add: d2_def getitem_put L1 P1)
  have S2: "and_then (EMA ta d1 (ema_slow self)) (setitem d1 (ema_col (ema_slow self))) = Inr d2"
    by (simp add: EMA_def P1 lift_Inr setitem_ok d2_def L1)
  define d3 where "d3 = put d2 (''rsi'') (rsi ta c (rsi_period self))"
  have L3: "length (rows d3) = length (rows df)"
    by (simp add: d3_def L2)
  have P3: "getitem d3 ''close'' = Inr c" "getitem d3 ''high'' = Inr h"
    "getitem d3 ''low'' = Inr l" "getitem d3 ''volume'' = Inr v"
    by (simp_all add: d3_def getitem_put L2 P2)
  have S3: "and_then (RSI ta d2 (rsi_period self)) (setitem d2 ''rsi'') = Inr d3"
    by (simp add: RSI_def P2 lift_Inr setitem_ok d3_def L2)
  define d4 where "d4 = put d3 (''macd'') (line)"
  have L4: "length (rows d4) = length (rows df)"
    by (simp add: d4_def L3)
  have P4: "getitem d4 ''close'' = Inr c" "getitem d4 ''high'' = Inr h"
    "getitem d4 ''low'' = Inr l" "getitem d4 ''volume'' = Inr v"
    by (simp_all add: d4_def getitem_put L3 P3)
  have S4: "setitem d3 ''macd'' (macd m) = Inr d4"
    by (simp add: m_def setitem_ok d4_def L3)
  define d5 where "d5 = put d4 (''macd_signal'') (sig)"
  have L5: "length (rows d5) = length (rows df)"
    by (simp add: d5_def L4)
  have P5: "getitem d5 ''close'' = Inr c" "getitem d5 ''high'' = Inr h"
    "getitem d5 ''low'' = Inr l" "getitem d5 ''volume'' = Inr v"
    by (simp_all add: d5_def getitem_put L4 P4)
  have S5: "setitem d4 ''macd_signal'' (macdsignal m) = Inr d5"
    by (simp add: m_def setitem_ok d5_def L4)
  define d6 where "d6 = put d5 (''macd_hist'') (series_sub line sig)"
  have L6: "length (rows d6) = length (rows df)"
    by (simp add: d6_def L5)
  have P6: "getitem d6 ''close'' = Inr c" "getitem d6 ''high'' = Inr h"
    "getitem d6 ''low'' = Inr l" "getitem d6 ''volume'' = Inr v"
    by (simp_all add: d6_def getitem_put L5 P5)
  have S6: "setitem d5 ''macd_hist'' (macdhist m) = Inr d6"
    by (simp add: m_def setitem_ok d6_def L5)
  define d7 where "d7 = put d6 (''adx'') (adx ta h l c (adx_period self))"
  have L7: "length (rows d7) = length (rows df)"
    by (simp add: d7_def L6)
  have P7: "getitem d7 ''close'' = Inr c" "getitem d7 ''high'' = Inr h"
    "getitem d7 ''low'' = Inr l" "getitem d7 ''volume'' = Inr v"
    by (simp_all add: d7_def getitem_put L6 P6)
  have S7: "and_then (ADX ta d6 (adx_period self)) (setitem d6 ''adx'') = Inr d7"
    by (simp add: ADX_def P6 lift_Inr setitem_ok d7_def L6)
  define d8 where "d8 = put d7 (''atr'') (atr ta h l c (atr_period self))"
  have L8: "length (rows d8) = length (rows df)"
    by (simp add: d8_def L7)
  have P8: "getitem d8 ''close'' = Inr c" "getitem d8 ''high'' = Inr h"
    "getitem d8 ''low'' = Inr l" "getitem d8 ''volume'' = Inr v"
    by (simp_all add: d8_def getitem_put L7 P7)
  have S8: "and_then (ATR ta d7 (atr_period self)) (setitem d7 ''atr'') = Inr d8"
    by (simp add: ATR_def P7 lift_Inr setitem_ok d8_def L7)
  define d9 where "d9 = put d8 (''vol_ma20'') (rolling_mean ta v 20)"
  have L9: "length (rows d9) = length (rows df)"
    by (simp add: d9_def L8)
  have P9: "getitem d9 ''close'' = Inr c" "getitem d9 ''high'' = Inr h"
    "getitem d9 ''low'' = Inr l" "getitem d9 ''volume'' = Inr v"
    by (simp_all add: d9_def getitem_put L8 P8)
  have S9: "and_then (lift1 (\<lambda>v. rolling_mean ta v 20) (getitem d8 ''volume'')) (setitem d8 ''vol_ma20'') = Inr d9"
    by (simp add: P8 lift_Inr setitem_ok d9_def L8)
  define d10 where "d10 = put d9 (''high_recent'') (rolling_max ta h lookback)"
  have L10: "length (rows d10) = length (rows df)"
    by (simp add: d10_def L9)
  have P10: "getitem d10 ''close'' = Inr c" "getitem d10 ''high'' = Inr h"
    "getitem d10 ''low'' = Inr l" "getitem d10 ''volume'' = Inr v"
    by (simp_all add: d10_def getitem_put L9 P9)
  have S10: "and_then (lift1 (\<lambda>v. rolling_max ta v lookback) (getitem d9 ''high'')) (setitem d9 ''high_recent'') = Inr d10"
    by (simp add: P9 lift_Inr setitem_ok d10_def L9)
  define d11 where "d11 = put d10 (''low_recent'') (rolling_min ta l lookback)"
  have L11: "length (rows d11) = length (rows df)"
    by (simp add: d11_def L10)
  have P11: "getitem d11 ''close'' = Inr c" "getitem d11 ''high'' = Inr h"
    "getitem d11 ''low'' = Inr l" "getitem d11 ''volume'' = Inr v"
    by (simp_all add: d11_def getitem_put L10 P10)
  have S11: "and_then (lift1 (\<lambda>v. rolling_min ta v lookback) (getitem d10 ''low'')) (setitem d10 ''low_recent'') = Inr d11"
    by (simp add: P10 lift_Inr setitem_ok d11_def L10)
  define d12 where "d12 = put d11 (''price_above_ema_slow'') (series_fsub c (ema ta c (ema_slow self)))"
  have L12: "length (rows d12) = length (rows df)"
    by (simp add: d12_def L11)
  have F2: "getitem d2 (ema_col (ema_slow self)) = Inr (ema ta c (ema_slow self))"
    by (simp add: d2_def getitem_put L1)
  have F3: "getitem d3 (ema_col (ema_slow self)) = Inr (ema ta c (ema_slow self))"
    by (simp add: d3_def getitem_put L2 F2)
  have F4: "getitem d4 (ema_col (ema_slow self)) = Inr (ema ta c (ema_slow self))"
    by (simp add: d4_def getitem_put L3 F3)
  have F5: "getitem d5 (ema_col (ema_slow self)) = Inr (ema ta c (ema_slow self))"
    by (simp add: d5_def getitem_put L4 F4)
  have F6: "getitem d6 (ema_col (ema_slow self)) = Inr (ema ta c (ema_slow self))"
    by (simp add: d6_def getitem_put L5 F5)
  have F7: "getitem d7 (ema_col (ema_slow self)) = Inr (ema ta c (ema_slow self))"
    by (simp add: d7_def getitem_put L6 F6)
  have F8: "getitem d8 (ema_col (ema_slow self)) = Inr (ema ta c (ema_slow self))"
    by (simp add: d8_def getitem_put L7 F7)
  have F9: "getitem d9 (ema_col (ema_slow self)) = Inr (ema ta c (ema_slow self))"
    by (simp add: d9_def getitem_put L8 F8)
  have F10: "getitem d10 (ema_col (ema_slow self)) = Inr (ema ta c (ema_slow self))"
    by (simp add: d10_def getitem_put L9 F9)
  have F11: "getitem d11 (ema_col (ema_slow self)) = Inr (ema ta c (ema_slow self))"
    by (simp add: d11_def getitem_put L10 F10)
  have S12: "and_then (lift2 series_fsub (getitem d11 ''close'') (getitem d11 (ema_col (ema_slow self)))) (setitem d11 ''price_above_ema_slow'') = Inr d12"
    by (simp add: P11 F11 lift_Inr setitem_ok d12_def L11)
  have M: "MACD ta d3 (macd_fast self) (macd_slow self) (macd_signal self) = Inr m"
    by (simp add: MACD_def P3 lift_Inr Let_def m_def line_def sig_def)
  have "populate_indicators ta self df = Inr d12"
    unfolding populate_indicators_def
    by (simp only: S1 S2 S3 M S4 S5 S6 S7 S8 S9 S10 S11 S12 and_then_Inr)
  moreover have "d12 = puts df (indicator_series ta self c h l v)"
    by (simp add: indicator_series_def Let_def d12_def d11_def d10_def d9_def d8_def d7_def
        d6_def d5_def d4_def d3_def d2_def d1_def line_def sig_def)
  ultimately show ?thesis
    by (simp add: c_def h_def l_def v_def)
qed


lemma length_rows_puts:
  "\<forall>(n, s) \<in> set ps. length s = length (rows df) \<Longrightarrow>
     length (rows (puts df ps)) = length (rows df)"
  by (induction ps arbitrary: df) auto

lemma getitem_puts:
  "\<forall>(n, s) \<in> set ps. length s = length (rows df) \<Longrightarrow>
     getitem (puts df ps) name =
       (case map_of (rev ps) name of Some s \<Rightarrow> Inr s | None \<Rightarrow> getitem df name)"
proof (induction ps arbitrary: df)
  case Nil
  then show ?case by simp
next
  case (Cons p ps)
  obtain k t where p: "p = (k, t)" by (cases p)
  from Cons.prems p have len: "length t = length (rows df)"
    and rest: "\<forall>(n, s) \<in> set ps. length s = length (rows (put df k t))"
    by auto
  show ?case
    using Cons.IH [OF rest] len
    by (simp add: p getitem_put map_add_def split: option.splits)
qed


lemma ema_col_not_indicator' [simp]:
  "''rsi'' \<noteq> ema_col p" "''macd'' \<noteq> ema_col p" "''macd_signal'' \<noteq> ema_col p"
  "''macd_hist'' \<noteq> ema_col p" "''adx'' \<noteq> ema_col p" "''atr'' \<noteq> ema_col p"
  "''vol_ma20'' \<noteq> ema_col p" "''high_recent'' \<noteq> ema_col p" "''low_recent'' \<noteq> ema_col p"
  "''price_above_ema_slow'' \<noteq> ema_col p" "''enter'' \<noteq> ema_col p" "''exit'' \<noteq> ema_col p"
  by (simp_all add: ema_col_def)

lemma indicator_series_lengths:
  assumes "aligned ta" and "length h = length c" and "length l = length c"
    and "length v = length c"
  shows "\<forall>(n, s) \<in> set (indicator_series ta self c h l v). length s = length c"
  using assms by (simp add: indicator_series_def Let_def aligned_def)

lemma indicator_series_names:
  "map fst (indicator_series ta self c h l v) =
     [ema_col (ema_fast self), ema_col (ema_slow self), ''rsi'', ''macd'', ''macd_signal'',
      ''macd_hist'', ''adx'', ''atr'', ''vol_ma20'', ''high_recent'', ''low_recent'',
      ''price_above_ema_slow'']"
  by (simp add: indicator_series_def Let_def)

lemma indicator_series_macd:
  "map_of (rev (indicator_series ta self c h l v)) ''macd'' =
     Some (series_sub (ema ta c (macd_fast self)) (ema ta c (macd_slow self)))"
  "map_of (rev (indicator_series ta self c h l v)) ''macd_signal'' =
     Some (ema ta (series_sub (ema ta c (macd_fast self)) (ema ta c (macd_slow self)))
             (macd_signal self))"
  "map_of (rev (indicator_series ta self c h l v)) ''macd_hist'' =
     Some (series_sub (series_sub (ema ta c (macd_fast self)) (ema ta c (macd_slow self)))
             (ema ta (series_sub (ema ta c (macd_fast self)) (ema ta c (macd_slow self)))
                (macd_signal self)))"
  by (simp_all add: indicator_series_def Let_def)

lemma length_smooth [simp]: "length (smooth k prev s) = length s"
  by (induction s arbitrary: prev) (simp_all add: Let_def)

lemma aligned_example_library: "aligned example_library"
  by (simp add: aligned_def example_library_def unavailable_def)

text \<open>The macd line and its signal at the second of the three example bars.\<close>

lemma price_frame_macd:
  "signal_at (populate_indicators example_library ImprovedBreakoutStrategy price_frame) ''macd'' 1
     = Some (Num (280 / 351))"
  "signal_at (populate_indicators example_library ImprovedBreakoutStrategy price_frame)
     ''macd_signal'' 1 = Some (Num (56 / 351))"
proof -
  let ?c = "map (\<lambda>r. r ''close'') (rows price_frame)"
  let ?ps = "indicator_series example_library ImprovedBreakoutStrategy ?c
               (map (\<lambda>r. r ''high'') (rows price_frame))
               (map (\<lambda>r. r ''low'') (rows price_frame))
               (map (\<lambda>r. r ''volume'') (rows price_frame))"
  have cols: "{''close'', ''high'', ''low'', ''volume''} \<subseteq> set (columns price_frame)"
    by (simp add: price_frame_def)
  have run: "populate_indicators example_library ImprovedBreakoutStrategy price_frame =
             Inr (puts price_frame ?ps)"
    by (rule populate_indicators_puts [OF aligned_example_library cols])
  have len: "\<forall>(n, s) \<in> set ?ps. length s = length (rows price_frame)"
    using indicator_series_lengths [OF aligned_example_library,
        of "map (\<lambda>r. r ''high'') (rows price_frame)" ?c
        "map (\<lambda>r. r ''low'') (rows price_frame)"
        "map (\<lambda>r. r ''volume'') (rows price_frame)" ImprovedBreakoutStrategy]
    by simp
  have c: "?c = [Num 100, Num 110, Num 120]"
    by (simp add: price_frame_def bar_def)
  show "signal_at (populate_indicators example_library ImprovedBreakoutStrategy price_frame) ''macd'' 1
     = Some (Num (280 / 351))"
    apply (simp add: run signal_at_getitem getitem_puts [OF len] indicator_series_macd)
    apply (simp add: ImprovedBreakoutStrategy_def c example_library_def Let_def series_sub_def)
    done
  show "signal_at (populate_indicators example_library ImprovedBreakoutStrategy price_frame)
     ''macd_signal'' 1 = Some (Num (56 / 351))"
    apply (simp add: run signal_at_getitem getitem_puts [OF len] indicator_series_macd)
    apply (simp add: ImprovedBreakoutStrategy_def c example_library_def Let_def series_sub_def)
    done
qed

text \<open>
  Claim C8. At every bar of the table the indicator hook returns, the cell of
  \<open>macd_hist\<close> is the cell of \<open>macd\<close> minus the cell of \<open>macd_signal\<close> (and is not
  available where one of them is not). The hook returns for every table that has the
  price columns, given a library whose routines return aligned series.
\<close>

theorem C8_macd_histogram:
  assumes "aligned ta"
    and "{''close'', ''high'', ''low'', ''volume''} \<subseteq> set (columns df)"
    and "i < length (rows df)"
  shows "\<exists>m s. signal_at (populate_indicators ta self df) ''macd'' i = Some m \<and>
           signal_at (populate_indicators ta self df) ''macd_signal'' i = Some s \<and>
           signal_at (populate_indicators ta self df) ''macd_hist'' i = Some (cell_sub m s)"
proof -
  define c where "c = map (\<lambda>r. r ''close'') (rows df)"
  define line where "line = series_sub (ema ta c (macd_fast self)) (ema ta c (macd_slow self))"
  define sig where "sig = ema ta line (macd_signal self)"
  let ?ps = "indicator_series ta self c (map (\<lambda>r. r ''high'') (rows df))
               (map (\<lambda>r. r ''low'') (rows df)) (map (\<lambda>r. r ''volume'') (rows df))"
  have run: "populate_indicators ta self df = Inr (puts df ?ps)"
    using populate_indicators_puts [OF assms(1,2)] by (simp add: c_def)
  have len: "\<forall>(n, s) \<in> set ?ps. length s = length (rows df)"
    using indicator_series_lengths [OF assms(1), of "map (\<lambda>r. r ''high'') (rows df)" c
        "map (\<lambda>r. r ''low'') (rows df)" "map (\<lambda>r. r ''volume'') (rows df)" self]
    by (simp add: c_def)
  have n: "length line = length (rows df)" "length sig = length (rows df)"
    using assms(1) by (simp_all add: line_def sig_def aligned_def c_def)
  have g: "getitem (puts df ?ps) ''macd'' = Inr line"
    "getitem (puts df ?ps) ''macd_signal'' = Inr sig"
    "getitem (puts df ?ps) ''macd_hist'' = Inr (series_sub line sig)"
    by (simp_all add: getitem_puts [OF len] indicator_series_macd line_def sig_def)
  have "series_sub line sig ! i = cell_sub (line ! i) (sig ! i)"
    using n assms(3) by (simp add: series_sub_def)
  then show ?thesis
    using n assms(3) by (simp add: run signal_at_getitem g)
qed

text \<open>
  The second of three bars with closes 100, 110 and 120, the example library and the
  class's periods 12, 26 and 9.
\<close>

theorem C8_macd_histogram_witness:
  "signal_at (populate_indicators example_library ImprovedBreakoutStrategy price_frame)
     ''macd'' 1 = Some (Num (280 / 351)) \<and>
   signal_at (populate_indicators example_library ImprovedBreakoutStrategy price_frame)
     ''macd_signal'' 1 = Some (Num (56 / 351)) \<and>
   signal_at (populate_indicators example_library ImprovedBreakoutStrategy price_frame)
     ''macd_hist'' 1 = Some (Num (224 / 351))"
proof -
  have cols: "{''close'', ''high'', ''low'', ''volume''} \<subseteq> set (columns price_frame)"
    by (simp add: price_frame_def)
  have len: "1 < length (rows price_frame)"
    by (simp add: price_frame_def)
  obtain m s where
    "signal_at (populate_indicators example_library ImprovedBreakoutStrategy price_frame)
       ''macd'' 1 = Some m"
    "signal_at (populate_indicators example_library ImprovedBreakoutStrategy price_frame)
       ''macd_signal'' 1 = Some s"
    "signal_at (populate_indicators example_library ImprovedBreakoutStrategy price_frame)
       ''macd_hist'' 1 = Some (cell_sub m s)"
    using C8_macd_histogram [OF aligned_example_library cols len, of ImprovedBreakoutStrategy]
    by blast
  with price_frame_macd show ?thesis by auto
qed

section \<open>The same series twice\<close>

lemma agree_mono: "agree N a b \<Longrightarrow> M \<subseteq> N \<Longrightarrow> agree M a b"
  by (auto simp: agree_def)

lemma agree_put:
  assumes "agree N a b" and "length s = length (rows a)"
  shows "agree (insert n N) (put a n s) (put b n s)"
proof -
  from assms have lb: "length s = length (rows b)" by (simp add: agree_def)
  have "map (\<lambda>r. r k) (rows (put a n s)) = map (\<lambda>r. r k) (rows (put b n s))"
    if "k = n \<or> k \<in> N" for k
    using that assms lb by (auto simp: agree_def put_def map_put_rows simp del: map_map)
  then show ?thesis
    using assms lb by (auto simp: agree_def)
qed

lemma agree_puts:
  assumes "agree N a b" and "\<forall>(n, s) \<in> set ps. length s = length (rows a)"
  shows "agree (N \<union> fst ` set ps) (puts a ps) (puts b ps)"
  using assms
proof (induction ps arbitrary: a b N)
  case Nil
  then show ?case by simp
next
  case (Cons p ps)
  obtain k t where p: "p = (k, t)" by (cases p)
  from Cons.prems p have len: "length t = length (rows a)"
    and rest: "\<forall>(n, s) \<in> set ps. length s = length (rows (put a k t))"
    by auto
  have "agree (insert k N \<union> fst ` set ps) (puts (put a k t) ps) (puts (put b k t) ps)"
    using Cons.IH [OF agree_put [OF Cons.prems(1) len] rest] .
  then show ?case by (simp add: p)
qed

lemma agree_map:
  assumes "agree N a b" and "\<And>r r'. (\<forall>n \<in> N. r n = r' n) \<Longrightarrow> f r = f r'"
  shows "map f (rows a) = map f (rows b)"
proof (rule nth_equalityI)
  show "length (map f (rows a)) = length (map f (rows b))"
    using assms(1) by (simp add: agree_def)
next
  fix i assume "i < length (map f (rows a))"
  then have i: "i < length (rows a)" "i < length (rows b)"
    using assms(1) by (simp_all add: agree_def)
  have "\<forall>n \<in> N. (rows a ! i) n = (rows b ! i) n"
  proof
    fix n assume "n \<in> N"
    then have "map (\<lambda>r. r n) (rows a) ! i = map (\<lambda>r. r n) (rows b) ! i"
      using assms(1) by (simp add: agree_def)
    with i show "(rows a ! i) n = (rows b ! i) n" by simp
  qed
  then have "f (rows a ! i) = f (rows b ! i)" by (rule assms(2))
  with i show "map f (rows a) ! i = map f (rows b) ! i" by simp
qed

lemma entry_value_cong:
  assumes "\<forall>n \<in> set (entry_columns self). r n = r' n"
  shows "entry_value self r = entry_value self r'"
proof -
  have e: "r ''close'' = r' ''close''" "r ''high_recent'' = r' ''high_recent''"
    "r ''atr'' = r' ''atr''" "r ''macd'' = r' ''macd''" "r ''macd_signal'' = r' ''macd_signal''"
    "r (ema_col (ema_slow self)) = r' (ema_col (ema_slow self))"
    "r ''volume'' = r' ''volume''" "r ''vol_ma20'' = r' ''vol_ma20''" "r ''adx'' = r' ''adx''"
    "r ''low_recent'' = r' ''low_recent''" "r ''rsi'' = r' ''rsi''"
    "r (ema_col (ema_fast self)) = r' (ema_col (ema_fast self))"
    using assms unfolding entry_columns_def by (simp_all only: list.set ball_simps simp_thms)
  show ?thesis
    unfolding entry_value_def long_entry_row_def short_entry_row_def
      long_breakout_row_def short_breakout_row_def range_long_row_def range_short_row_def
      consolidation_long_row_def consolidation_short_row_def e ..
qed

lemma exit_value_cong:
  assumes "\<forall>n \<in> set (exit_columns self). r n = r' n"
  shows "exit_value self r = exit_value self r'"
proof -
  have e: "r ''close'' = r' ''close''"
    "r (ema_col (ema_slow self)) = r' (ema_col (ema_slow self))" "r ''rsi'' = r' ''rsi''"
    using assms unfolding exit_columns_def by (simp_all only: list.set ball_simps simp_thms)
  show ?thesis
    unfolding exit_value_def exit_long_row_def exit_short_row_def e ..
qed

lemma agree_signal:
  assumes ag: "agree N a b" and f: "map f (rows a) = map f (rows b)"
  shows "agree (insert k N)
           (a\<lparr>columns := with_column k (columns a), rows := map (\<lambda>r. r(k := f r)) (rows a)\<rparr>)
           (b\<lparr>columns := with_column k (columns b), rows := map (\<lambda>r. r(k := f r)) (rows b)\<rparr>)"
proof -
  have "map (\<lambda>r. (r(k := f r)) n) (rows a) = map (\<lambda>r. (r(k := f r)) n) (rows b)"
    if "n = k \<or> n \<in> N" for n
  proof (cases "n = k")
    case True
    with f show ?thesis by simp
  next
    case False
    with that ag show ?thesis by (simp add: agree_def)
  qed
  then show ?thesis
    using ag by (auto simp: agree_def o_def)
qed

lemma populate_entry_trend_agree:
  assumes ag: "agree N a b" and cols: "set (entry_columns self) \<subseteq> N"
    and ne: "rows a \<noteq> []"
  shows "\<exists>a' b'. populate_entry_trend self a = Inr a' \<and> populate_entry_trend self b = Inr b' \<and>
           length (rows a') = length (rows a) \<and> agree (insert ''enter'' N) a' b'"
proof (cases "length (rows a) < startup_candle_count self")
  case True
  have ne': "rows b \<noteq> []"
    using ag ne by (auto simp: agree_def)
  from True have lb: "length (rows b) < startup_candle_count self"
    using ag by (simp add: agree_def)
  have "map (\<lambda>r. Num 0) (rows a) = map (\<lambda>r. Num 0) (rows b)"
    using ag by (simp add: agree_def map_replicate_const)
  then show ?thesis
    using agree_signal [OF ag, of "\<lambda>r. Num 0" "''enter''"]
    by (simp add: populate_entry_trend_short [OF True ne] populate_entry_trend_short [OF lb ne'])
next
  case False
  then have la: "startup_candle_count self \<le> length (rows a)"
    and lb: "startup_candle_count self \<le> length (rows b)"
    using ag by (simp_all add: agree_def)
  have ca: "set (entry_columns self) \<subseteq> set (columns a)"
    and cb: "set (entry_columns self) \<subseteq> set (columns b)"
    using ag cols by (auto simp: agree_def)
  have ne': "rows b \<noteq> []"
    using ag ne by (auto simp: agree_def)
  have "map (entry_value self) (rows a) = map (entry_value self) (rows b)"
    using agree_mono [OF ag cols] by (rule agree_map) (rule entry_value_cong)
  then show ?thesis
    using agree_signal [OF ag, of "entry_value self" "''enter''"]
    by (simp add: populate_entry_trend_long [OF ca la ne]
        populate_entry_trend_long [OF cb lb ne'])
qed

lemma populate_exit_trend_agree:
  assumes ag: "agree N a b" and cols: "set (exit_columns self) \<subseteq> N"
    and ne: "rows a \<noteq> []"
  shows "\<exists>a' b'. populate_exit_trend self a = Inr a' \<and> populate_exit_trend self b = Inr b' \<and>
           length (rows a') = length (rows a) \<and> agree (insert ''exit'' N) a' b'"
proof -
  have ca: "set (exit_columns self) \<subseteq> set (columns a)"
    and cb: "set (exit_columns self) \<subseteq> set (columns b)"
    using ag cols by (auto simp: agree_def)
  have ne': "rows b \<noteq> []"
    using ag ne by (auto simp: agree_def)
  have "map (exit_value self) (rows a) = map (exit_value self) (rows b)"
    using agree_mono [OF ag cols] by (rule agree_map) (rule exit_value_cong)
  then show ?thesis
    using agree_signal [OF ag, of "exit_value self" "''exit''"]
    by (simp add: populate_exit_trend_rows [OF ca ne] populate_exit_trend_rows [OF cb ne'])
qed

lemma populate_indicators_agree:
  assumes al: "aligned ta" and ag: "agree {''close'', ''high'', ''low'', ''volume''} a b"
  shows "\<exists>a' b'. populate_indicators ta self a = Inr a' \<and> populate_indicators ta self b = Inr b' \<and>
           length (rows a') = length (rows a) \<and>
           agree ({''close'', ''high'', ''low'', ''volume''} \<union>
                  {ema_col (ema_fast self), ema_col (ema_slow self), ''rsi'', ''macd'',
                   ''macd_signal'', ''macd_hist'', ''adx'', ''atr'', ''vol_ma20'',
                   ''high_recent'', ''low_recent'', ''price_above_ema_slow''}) a' b'"
proof -
  let ?ps = "\<lambda>d. indicator_series ta self (map (\<lambda>r. r ''close'') (rows d))
               (map (\<lambda>r. r ''high'') (rows d)) (map (\<lambda>r. r ''low'') (rows d))
               (map (\<lambda>r. r ''volume'') (rows d))"
  have ca: "{''close'', ''high'', ''low'', ''volume''} \<subseteq> set (columns a)"
    and cb: "{''close'', ''high'', ''low'', ''volume''} \<subseteq> set (columns b)"
    using ag by (auto simp: agree_def)
  have same: "?ps b = ?ps a"
    using ag by (simp add: agree_def)
  have len: "\<forall>(n, s) \<in> set (?ps a). length s = length (rows a)"
    using indicator_series_lengths [OF al, of "map (\<lambda>r. r ''high'') (rows a)"
        "map (\<lambda>r. r ''close'') (rows a)" "map (\<lambda>r. r ''low'') (rows a)"
        "map (\<lambda>r. r ''volume'') (rows a)" self]
    by simp
  have names: "fst ` set (?ps a) =
      {ema_col (ema_fast self), ema_col (ema_slow self), ''rsi'', ''macd'',
       ''macd_signal'', ''macd_hist'', ''adx'', ''atr'', ''vol_ma20'',
       ''high_recent'', ''low_recent'', ''price_above_ema_slow''}"
  proof -
    have "fst ` set (?ps a) = set (map fst (?ps a))" by simp
    then show ?thesis by (simp only: indicator_series_names) simp
  qed
  have "agree ({''close'', ''high'', ''low'', ''volume''} \<union> fst ` set (?ps a))
          (puts a (?ps a)) (puts b (?ps a))"
    by (rule agree_puts [OF ag len])
  then have g: "agree ({''close'', ''high'', ''low'', ''volume''} \<union>
                  {ema_col (ema_fast self), ema_col (ema_slow self), ''rsi'', ''macd'',
                   ''macd_signal'', ''macd_hist'', ''adx'', ''atr'', ''vol_ma20'',
                   ''high_recent'', ''low_recent'', ''price_above_ema_slow''})
          (puts a (?ps a)) (puts b (?ps b))"
    by (simp only: names same)
  have ra: "populate_indicators ta self a = Inr (puts a (?ps a))"
    by (rule populate_indicators_puts [OF al ca])
  have rb: "populate_indicators ta self b = Inr (puts b (?ps b))"
    by (rule populate_indicators_puts [OF al cb])
  from ra rb length_rows_puts [OF len] g show ?thesis by blast
qed

text \<open>
  Claim C10. Running the three hooks on the same price series with the same parameters
  gives the same indicator, entry and exit columns: the hooks return, and every column
  they write is determined by the close, high, low and volume columns and the
  parameters, whatever else the table carries (such as the columns of an earlier run).
\<close>

theorem C10_same_series_same_columns:
  assumes "aligned ta" and "agree {''close'', ''high'', ''low'', ''volume''} df1 df2"
    and "name \<in> set (output_columns self)" and "i < length (rows df1)"
  shows "signal_at (pipeline ta self df1) name i = signal_at (pipeline ta self df2) name i \<and>
         signal_at (pipeline ta self df1) name i \<noteq> None"
proof -
  let ?P = "{''close'', ''high'', ''low'', ''volume''}"
  let ?I = "{ema_col (ema_fast self), ema_col (ema_slow self), ''rsi'', ''macd'',
             ''macd_signal'', ''macd_hist'', ''adx'', ''atr'', ''vol_ma20'',
             ''high_recent'', ''low_recent'', ''price_above_ema_slow''}"
  obtain a1 b1 where i1: "populate_indicators ta self df1 = Inr a1"
    "populate_indicators ta self df2 = Inr b1" and l1: "length (rows a1) = length (rows df1)"
    and g1: "agree (?P \<union> ?I) a1 b1"
    using populate_indicators_agree [OF assms(1,2), of self] by blast
  have n1: "rows a1 \<noteq> []"
    using assms(4) l1 by auto
  have "set (entry_columns self) \<subseteq> ?P \<union> ?I"
    by (auto simp: entry_columns_def)
  then obtain a2 b2 where i2: "populate_entry_trend self a1 = Inr a2"
    "populate_entry_trend self b1 = Inr b2" and l2: "length (rows a2) = length (rows a1)"
    and g2: "agree (insert ''enter'' (?P \<union> ?I)) a2 b2"
    using populate_entry_trend_agree [OF g1 _ n1] by blast
  have n2: "rows a2 \<noteq> []"
    using n1 l2 by auto
  have "set (exit_columns self) \<subseteq> insert ''enter'' (?P \<union> ?I)"
    by (auto simp: exit_columns_def)
  then obtain a3 b3 where i3: "populate_exit_trend self a2 = Inr a3"
    "populate_exit_trend self b2 = Inr b3" and l3: "length (rows a3) = length (rows a2)"
    and g3: "agree (insert ''exit'' (insert ''enter'' (?P \<union> ?I))) a3 b3"
    using populate_exit_trend_agree [OF g2 _ n2] by blast
  have run: "pipeline ta self df1 = Inr a3" "pipeline ta self df2 = Inr b3"
    by (simp_all add: pipeline_def i1 i2 i3 and_then_Inr)
  have nm: "name \<in> insert ''exit'' (insert ''enter'' (?P \<union> ?I))"
    using assms(3) by (auto simp: output_columns_def)
  have ia: "i < length (rows a3)" and ib: "i < length (rows b3)"
    using assms(4) l1 l2 l3 g3 by (simp_all add: agree_def)
  have "\<forall>n \<in> insert ''exit'' (insert ''enter'' (?P \<union> ?I)).
          n \<in> set (columns a3) \<and> n \<in> set (columns b3) \<and>
          map (\<lambda>r. r n) (rows a3) = map (\<lambda>r. r n) (rows b3)"
    using g3 unfolding agree_def by (rule conjunct2)
  from bspec [OF this nm] have ca: "name \<in> set (columns a3)" and cb: "name \<in> set (columns b3)"
    and eq: "map (\<lambda>r. r name) (rows a3) = map (\<lambda>r. r name) (rows b3)"
    by blast+
  have "map (\<lambda>r. r name) (rows a3) ! i = map (\<lambda>r. r name) (rows b3) ! i"
    by (simp only: eq)
  with ia ib have "(rows a3 ! i) name = (rows b3 ! i) name"
    by simp
  then show ?thesis
    using ia ib ca cb by (simp add: run signal_at_Inr)
qed

text \<open>
  Three bars of prices, and the same bars in a table that carries stale \<open>rsi\<close>,
  \<open>enter\<close> and \<open>exit\<close> columns; the warm-up count is 1, so the masks are evaluated.
\<close>

theorem C10_same_series_same_columns_witness:
  "signal_at (pipeline example_library tuned_strategy price_frame) ''enter'' 1 =
     signal_at (pipeline example_library tuned_strategy stale_frame) ''enter'' 1 \<and>
   signal_at (pipeline example_library tuned_strategy price_frame) ''enter'' 1 \<noteq> None"
proof -
  have ag: "agree {''close'', ''high'', ''low'', ''volume''} price_frame stale_frame"
    by (simp add: agree_def price_frame_def stale_frame_def bar_def)
  have nm: "''enter'' \<in> set (output_columns tuned_strategy)"
    by (simp add: output_columns_def)
  have len: "1 < length (rows price_frame)"
    by (simp add: price_frame_def)
  show ?thesis
    by (rule C10_same_series_same_columns [OF aligned_example_library ag nm len])
qed

end
